theory Spec2Isabelle
  imports Complex_Main "HOL-Library.Sublist"
begin

section \<open>Shared data model (shared/models.py)\<close>

text \<open>
  Python's \<open>Any\<close> values that travel as tool parameters and payloads. A \<open>dict\<close> is an
  association list in insertion order; a well-formed one has distinct keys.
\<close>

datatype json =
    JNull
  | JBool bool
  | JInt int
  | JFloat real
  | JStr string
  | JList "json list"
  | JDict "(string \<times> json) list"

type_synonym pydict = "(string \<times> json) list"

text \<open>
  Exceptions: Python's own, and \<open>LibraryError\<close> for one raised inside a library
  (jsonschema, the HTTP client, the model provider).
\<close>

datatype py_error = ValueError string | RuntimeError string | LibraryError string

datatype ExecutionType = READ | WRITE

datatype PermissionLevel = PUBLIC | USER | ADMIN | SYSTEM

record Permission =
  p_level :: PermissionLevel
  p_roles :: "string list"
  p_scopes :: "string list"

record ToolDefinition =
  td_name :: string
  td_domain :: string
  td_description :: string
  td_version :: string
  td_input_schema :: pydict
  td_output_schema :: pydict
  td_execution_type :: ExecutionType
  td_permissions :: Permission
  td_tags :: "string list"
  td_deprecated :: bool

record UserContext =
  u_user_id :: string
  u_username :: string
  u_email :: "string option"
  u_roles :: "string list"
  u_permissions :: "string list"

record ExecutionContext =
  ec_request_id :: string
  ec_user :: UserContext
  ec_timestamp :: int
  ec_source :: string
  ec_correlation_id :: "string option"

record ToolCall =
  tc_tool_name :: string
  tc_parameters :: pydict
  tc_context :: ExecutionContext

datatype ToolResultStatus =
  SUCCESS | ERROR | UNAUTHORIZED | NOT_FOUND | VALIDATION_ERROR | TIMEOUT

record ToolResult =
  tr_tool_name :: string
  tr_status :: ToolResultStatus
  tr_data :: json
  tr_error :: "string option"
  tr_error_code :: "string option"
  tr_execution_time_ms :: real

record AuditEntry =
  ae_id :: string
  ae_timestamp :: int
  ae_user_id :: string
  ae_username :: string
  ae_tool_name :: string
  ae_domain :: string
  ae_execution_type :: ExecutionType
  ae_parameters :: pydict
  ae_status :: ToolResultStatus
  ae_error :: "string option"
  ae_execution_time_ms :: real
  ae_request_id :: string
  ae_correlation_id :: "string option"

text \<open>\<open>ToolDefinition.qualified_name\<close>: the name itself when it already holds a dot.\<close>

definition qualified_name :: "ToolDefinition \<Rightarrow> string" where
  "qualified_name t =
     (if CHR ''.'' \<notin> set (td_name t) then td_domain t @ ''.'' @ td_name t else td_name t)"

text \<open>The constructor \<open>ToolResult(tool_name=..., status=...)\<close> with the model's defaults.\<close>

definition new_result :: "string \<Rightarrow> ToolResultStatus \<Rightarrow> ToolResult" where
  "new_result n st =
     \<lparr>tr_tool_name = n, tr_status = st, tr_data = JNull, tr_error = None,
      tr_error_code = None, tr_execution_time_ms = 0\<rparr>"

section \<open>Python dictionaries and strings\<close>

definition dict_get :: "('k \<times> 'v) list \<Rightarrow> 'k \<Rightarrow> 'v option" where
  "dict_get d k = map_of d k"

text \<open>\<open>d[k] = v\<close>: an existing key keeps its place, a new key goes last.\<close>

fun dict_set :: "('k \<times> 'v) list \<Rightarrow> 'k \<Rightarrow> 'v \<Rightarrow> ('k \<times> 'v) list" where
  "dict_set [] k v = [(k, v)]"
| "dict_set ((k', v') # d) k v =
     (if k' = k then (k, v) # d else (k', v') # dict_set d k v)"

definition dict_values :: "('k \<times> 'v) list \<Rightarrow> 'v list" where
  "dict_values d = map snd d"

text \<open>\<open>sep.join(xs)\<close>.\<close>

fun join :: "string \<Rightarrow> string list \<Rightarrow> string" where
  "join sep [] = []"
| "join sep [x] = x"
| "join sep (x # y # ys) = x @ sep @ join sep (y # ys)"

definition quote :: string where
  "quote = [CHR 0x27]"

section \<open>Tool registry (mcp_server/registry.py)\<close>

record ToolRegistry =
  r_tools :: "(string \<times> ToolDefinition) list"
  r_domains :: "string set"

definition empty_registry :: ToolRegistry where
  "empty_registry = \<lparr>r_tools = [], r_domains = {}\<rparr>"

definition register :: "ToolRegistry \<Rightarrow> ToolDefinition \<Rightarrow> py_error + ToolRegistry" where
  "register reg tool =
     (let qn = qualified_name tool in
      if qn \<in> fst ` set (r_tools reg)
      then Inl (ValueError (''Tool '' @ quote @ qn @ quote @ '' is already registered''))
      else Inr \<lparr>r_tools = dict_set (r_tools reg) qn tool,
                r_domains = insert (td_domain tool) (r_domains reg)\<rparr>)"

definition get :: "ToolRegistry \<Rightarrow> string \<Rightarrow> ToolDefinition option" where
  "get reg tool_name = dict_get (r_tools reg) tool_name"

text \<open>
  \<open>list_tools(domain, include_deprecated)\<close>. The test \<open>if domain:\<close> treats the empty
  string like \<open>None\<close>.
\<close>

definition list_tools :: "ToolRegistry \<Rightarrow> string option \<Rightarrow> bool \<Rightarrow> ToolDefinition list" where
  "list_tools reg domain include_deprecated =
     (let tools0 = dict_values (r_tools reg);
          tools1 = (case domain of
                      None \<Rightarrow> tools0
                    | Some d \<Rightarrow> if d = [] then tools0
                               else filter (\<lambda>t. td_domain t = d) tools0)
      in if \<not> include_deprecated then filter (\<lambda>t. \<not> td_deprecated t) tools1 else tools1)"

text \<open>
  The permission test of \<open>get_tools_for_llm\<close>, one tool at a time: the loop body with
  its two \<open>continue\<close> branches and the final \<open>if\<close>.
\<close>

definition llm_permitted :: "string list \<Rightarrow> ToolDefinition \<Rightarrow> bool" where
  "llm_permitted user_roles tool =
     (if p_level (td_permissions tool) = PUBLIC then True
      else if list_ex (\<lambda>role. role \<in> set (p_roles (td_permissions tool))) user_roles then True
      else p_level (td_permissions tool) = USER \<and> user_roles \<noteq> [])"

text \<open>The tools \<open>get_tools_for_llm\<close> keeps, before they are formatted.\<close>

definition select_tools_for_llm ::
  "ToolRegistry \<Rightarrow> string list option \<Rightarrow> string list option \<Rightarrow> ToolDefinition list" where
  "select_tools_for_llm reg domains user_roles =
     (let tools0 = list_tools reg None False;
          tools1 = (case domains of
                      None \<Rightarrow> tools0
                    | Some ds \<Rightarrow> if ds = [] then tools0
                                else filter (\<lambda>t. td_domain t \<in> set ds) tools0)
      in case user_roles of
           None \<Rightarrow> tools1
         | Some rs \<Rightarrow> filter (llm_permitted rs) tools1)"

definition default_parameters :: pydict where
  "default_parameters =
     [(''type'', JStr ''object''), (''properties'', JDict []), (''required'', JList [])]"

definition llm_format :: "ToolDefinition \<Rightarrow> json" where
  "llm_format tool =
     JDict [(''type'', JStr ''function''),
            (''function'',
             JDict [(''name'', JStr (qualified_name tool)),
                    (''description'', JStr (td_description tool)),
                    (''parameters'',
                     JDict (if td_input_schema tool \<noteq> [] then td_input_schema tool
                            else default_parameters))])]"

definition get_tools_for_llm ::
  "ToolRegistry \<Rightarrow> string list option \<Rightarrow> string list option \<Rightarrow> json list" where
  "get_tools_for_llm reg domains user_roles =
     map llm_format (select_tools_for_llm reg domains user_roles)"

section \<open>Authorization (mcp_server/auth.py)\<close>

definition authorize_request ::
  "ToolDefinition \<Rightarrow> UserContext \<Rightarrow> ExecutionContext \<Rightarrow> bool \<times> string option" where
  "authorize_request tool user context =
     (let permission = td_permissions tool in
      if p_level permission = PUBLIC then (True, None)
      else if p_level permission = SYSTEM \<and> ''system'' \<notin> set (u_roles user)
        then (False, Some ''System-level access required'')
      else if p_level permission = ADMIN \<and> ''admin'' \<notin> set (u_roles user)
        then (False, Some ''Admin access required'')
      else if p_roles permission \<noteq> []
              \<and> \<not> list_ex (\<lambda>role. role \<in> set (u_roles user)) (p_roles permission)
        then (False, Some (''Required roles: '' @ join '', '' (p_roles permission)))
      else if p_scopes permission \<noteq> []
              \<and> \<not> list_ex (\<lambda>scope. scope \<in> set (u_permissions user)) (p_scopes permission)
        then (False, Some (''Required scopes: '' @ join '', '' (p_scopes permission)))
      else (True, None))"

section \<open>Audit logging (mcp_server/audit.py)\<close>

text \<open>\<open>str.lower\<close> on the ASCII letters.\<close>

definition lower_char :: "char \<Rightarrow> char" where
  "lower_char c =
     (if 65 \<le> (of_char c :: nat) \<and> (of_char c :: nat) \<le> 90
      then char_of ((of_char c :: nat) + 32) else c)"

definition lower :: "string \<Rightarrow> string" where
  "lower s = map lower_char s"

definition SENSITIVE_PARAMS :: "string set" where
  "SENSITIVE_PARAMS =
     {''password'', ''token'', ''secret'', ''api_key'', ''apikey'', ''credential''}"

definition REDACTED :: json where
  "REDACTED = JStr ''[REDACTED]''"

text \<open>
  \<open>_redact_sensitive\<close>: the loop over \<open>params.items()\<close>, with the dictionary under
  construction as the second argument; \<open>redacted = {}\<close> starts it.
\<close>

function redact_loop :: "pydict \<Rightarrow> pydict \<Rightarrow> pydict" where
  "redact_loop [] redacted = redacted"
| "redact_loop ((key, val) # rest) redacted =
     redact_loop rest
       (dict_set redacted key
          (if lower key \<in> SENSITIVE_PARAMS then REDACTED
           else case val of
                  JDict d \<Rightarrow> JDict (redact_loop d [])
                | _ \<Rightarrow> val))"
  by pat_completeness auto
termination
  by (relation "measure (\<lambda>(items, redacted). size_list (size_prod (\<lambda>_. 0) size) items)") auto

definition redact_sensitive :: "pydict \<Rightarrow> pydict" where
  "redact_sensitive params = redact_loop params []"

text \<open>
  The logger's state. \<open>al_file\<close> is the content of the file at \<open>log_path\<close>, one entry
  per JSON line.
\<close>

record AuditLogger =
  al_enabled :: bool
  al_buffer_size :: int
  al_buffer :: "AuditEntry list"
  al_file :: "AuditEntry list"

text \<open>
  \<open>create_entry\<close>; \<open>uuid.uuid4()\<close> and \<open>datetime.utcnow()\<close> are read from the
  environment and passed in.
\<close>

definition create_entry ::
  "string \<Rightarrow> int \<Rightarrow> ToolDefinition \<Rightarrow> ToolCall \<Rightarrow> ToolResult \<Rightarrow> AuditEntry" where
  "create_entry new_id now tool call result =
     \<lparr>ae_id = new_id,
      ae_timestamp = now,
      ae_user_id = u_user_id (ec_user (tc_context call)),
      ae_username = u_username (ec_user (tc_context call)),
      ae_tool_name = qualified_name tool,
      ae_domain = td_domain tool,
      ae_execution_type = td_execution_type tool,
      ae_parameters = redact_sensitive (tc_parameters call),
      ae_status = tr_status result,
      ae_error = tr_error result,
      ae_execution_time_ms = tr_execution_time_ms result,
      ae_request_id = ec_request_id (tc_context call),
      ae_correlation_id = ec_correlation_id (tc_context call)\<rparr>"

text \<open>
  What the file system does when \<open>_flush\<close> opens the log and writes the lines: all of
  them are written, or an exception is raised after the first \<open>n\<close> were written
  (\<open>n = 0\<close> when the file cannot be opened).
\<close>

datatype io_outcome = WriteOk | WriteFails nat

definition flush_buffer :: "io_outcome \<Rightarrow> AuditLogger \<Rightarrow> AuditLogger" where
  "flush_buffer io a =
     (if al_buffer a = [] then a
      else let entries_to_write = al_buffer a;
               a1 = a\<lparr>al_buffer := []\<rparr>
           in case io of
                WriteOk \<Rightarrow> a1\<lparr>al_file := al_file a1 @ entries_to_write\<rparr>
              | WriteFails n \<Rightarrow>
                  a1\<lparr>al_file := al_file a1 @ take n entries_to_write,
                     al_buffer := al_buffer a1 @ entries_to_write\<rparr>)"

text \<open>
  \<open>AuditLogger.log\<close>: nothing when disabled; otherwise append, and flush a full
  buffer.
\<close>

definition audit_log ::
  "io_outcome \<Rightarrow> string \<Rightarrow> int \<Rightarrow> AuditLogger \<Rightarrow> ToolDefinition \<Rightarrow> ToolCall \<Rightarrow> ToolResult
     \<Rightarrow> AuditLogger" where
  "audit_log io new_id now a tool call result =
     (if \<not> al_enabled a then a
      else let entry = create_entry new_id now tool call result;
               a1 = a\<lparr>al_buffer := al_buffer a @ [entry]\<rparr>
           in if int (length (al_buffer a1)) \<ge> al_buffer_size a1
              then flush_buffer io a1 else a1)"

text \<open>The public \<open>flush\<close> takes the lock and calls \<open>_flush\<close>.\<close>

definition flush :: "io_outcome \<Rightarrow> AuditLogger \<Rightarrow> AuditLogger" where
  "flush io a = flush_buffer io a"

section \<open>Schema validation (shared/schema.py, registry.validate_input)\<close>

text \<open>
  \<open>Draft7Validator(schema).iter_errors(data)\<close> belongs to the jsonschema library: it
  is a parameter. It gives the path (already as strings) and the message of each error,
  or it raises, as it does on a schema that is itself malformed (\<open>Inl\<close>).
\<close>

type_synonym schema_validator =
  "pydict \<Rightarrow> pydict \<Rightarrow> py_error + (string list \<times> string) list"

text \<open>\<open>validate_schema\<close>: \<open>Inl\<close> is the validator's exception, which is not caught.\<close>

definition validate_schema ::
  "schema_validator \<Rightarrow> pydict \<Rightarrow> pydict \<Rightarrow> py_error + bool \<times> string list" where
  "validate_schema iter_errors data schema =
     (if schema = [] then Inr (True, [])
      else case iter_errors schema data of
             Inl e \<Rightarrow> Inl e
           | Inr errors \<Rightarrow>
               if errors = [] then Inr (True, [])
               else Inr (False,
                         map (\<lambda>(path, message).
                                if path \<noteq> [] then join ''.'' path @ '': '' @ message
                                else message)
                             errors))"

definition validate_input ::
  "schema_validator \<Rightarrow> ToolRegistry \<Rightarrow> string \<Rightarrow> pydict \<Rightarrow> py_error + bool \<times> string list" where
  "validate_input iter_errors reg tool_name parameters =
     (case get reg tool_name of
        None \<Rightarrow> Inr (False, [''Tool '' @ quote @ tool_name @ quote @ '' not found''])
      | Some tool \<Rightarrow>
          if td_input_schema tool = [] then Inr (True, [])
          else validate_schema iter_errors parameters (td_input_schema tool))"

section \<open>Tool router (mcp_server/router.py)\<close>

text \<open>What a domain adapter does when called: it returns a value or raises.\<close>

datatype adapter_outcome = Returns json | ReturnsResult ToolResult | Raises string

type_synonym AdapterExecutor = "string \<Rightarrow> pydict \<Rightarrow> ExecutionContext \<Rightarrow> adapter_outcome"

record ToolRouter =
  rt_registry :: ToolRegistry
  rt_audit_logger :: AuditLogger
  rt_adapters :: "(string \<times> AdapterExecutor) list"

text \<open>
  What one call of \<open>execute\<close> reads from outside: the clock at entry and after the
  adapter has returned (seconds), the identifier and time stamp of the audit entry, the
  outcome of a flush to the log file, and the schema validator.
\<close>

record Env =
  env_time_start :: real
  env_time_end :: real
  env_uuid :: string
  env_utcnow :: int
  env_io :: io_outcome
  env_iter_errors :: schema_validator

text \<open>\<open>tool.name.split(".")[-1] if "." in tool.name else tool.name\<close>.\<close>

definition action_of :: "string \<Rightarrow> string" where
  "action_of n =
     (if CHR ''.'' \<in> set n then rev (takeWhile (\<lambda>c. c \<noteq> CHR ''.'') (rev n)) else n)"

text \<open>\<open>_execute_with_adapter\<close>: \<open>Inl\<close> is the adapter's exception, raised again.\<close>

definition execute_with_adapter ::
  "AdapterExecutor \<Rightarrow> ToolDefinition \<Rightarrow> pydict \<Rightarrow> ExecutionContext \<Rightarrow> string + ToolResult" where
  "execute_with_adapter adapter tool parameters context =
     (case adapter (action_of (td_name tool)) parameters context of
        Returns (JDict d) \<Rightarrow> Inr ((new_result (qualified_name tool) SUCCESS)\<lparr>tr_data := JDict d\<rparr>)
      | ReturnsResult r \<Rightarrow> Inr r
      | Returns v \<Rightarrow> Inr ((new_result (qualified_name tool) SUCCESS)\<lparr>tr_data := v\<rparr>)
      | Raises e \<Rightarrow> Inl e)"

definition audited :: "Env \<Rightarrow> ToolRouter \<Rightarrow> ToolDefinition \<Rightarrow> ToolCall \<Rightarrow> ToolResult \<Rightarrow> ToolRouter" where
  "audited env rt tool call result =
     rt\<lparr>rt_audit_logger :=
          audit_log (env_io env) (env_uuid env) (env_utcnow env) (rt_audit_logger rt)
            tool call result\<rparr>"

definition error_result :: "string \<Rightarrow> ToolResultStatus \<Rightarrow> string \<Rightarrow> string \<Rightarrow> ToolResult" where
  "error_result n st msg code =
     (new_result n st)\<lparr>tr_error := Some msg, tr_error_code := Some code\<rparr>"

text \<open>
  \<open>ToolRouter.execute\<close>: the result and the router after the call. \<open>Inl\<close> is an
  exception that leaves \<open>execute\<close>: the one of the schema validator, which is raised
  inside \<open>validate_input\<close> and caught nowhere.
\<close>

definition execute ::
  "Env \<Rightarrow> ToolRouter \<Rightarrow> ToolCall \<Rightarrow> (py_error + ToolResult) \<times> ToolRouter" where
  "execute env rt call =
     (let start_time = env_time_start env;
          tool_name = tc_tool_name call
      in case get (rt_registry rt) tool_name of
           None \<Rightarrow>
             (Inr (error_result tool_name NOT_FOUND
                     (''Tool '' @ quote @ tool_name @ quote @ '' not found'')
                     ''TOOL_NOT_FOUND''),
              rt)
         | Some tool \<Rightarrow>
             (case validate_input (env_iter_errors env) (rt_registry rt) tool_name
                     (tc_parameters call) of
                Inl e \<Rightarrow> (Inl e, rt)
              | Inr (is_valid, errors) \<Rightarrow>
                  if \<not> is_valid then
                    let result = error_result tool_name VALIDATION_ERROR
                                   (''Validation failed: '' @ join ''; '' errors)
                                   ''VALIDATION_ERROR''
                    in (Inr result, audited env rt tool call result)
                  else
                    let (authorized, auth_error) =
                          authorize_request tool (ec_user (tc_context call)) (tc_context call)
                    in if \<not> authorized then
                         let result = error_result tool_name UNAUTHORIZED
                                        (case auth_error of
                                           None \<Rightarrow> ''Unauthorized''
                                         | Some e \<Rightarrow> if e \<noteq> [] then e else ''Unauthorized'')
                                        ''UNAUTHORIZED''
                         in (Inr result, audited env rt tool call result)
                       else
                         case dict_get (rt_adapters rt) (td_domain tool) of
                           None \<Rightarrow>
                             let result = error_result tool_name ERROR
                                            (''No adapter registered for domain '' @ quote
                                               @ td_domain tool @ quote)
                                            ''NO_ADAPTER''
                             in (Inr result, audited env rt tool call result)
                         | Some adapter \<Rightarrow>
                             let result0 =
                                   (case execute_with_adapter adapter tool (tc_parameters call)
                                           (tc_context call) of
                                      Inr r \<Rightarrow> r
                                    | Inl e \<Rightarrow>
                                        error_result tool_name ERROR e ''EXECUTION_ERROR'');
                                 result = result0\<lparr>tr_execution_time_ms :=
                                                    (env_time_end env - start_time) * 1000\<rparr>
                             in (Inr result, audited env rt tool call result)))"

section \<open>Conversations (orchestrator/conversation.py)\<close>

text \<open>
  A tool-call request as the LLM providers build it: \<open>id\<close>, and under \<open>function\<close> a
  \<open>name\<close> and the \<open>arguments\<close>, a JSON text or an already parsed value.
\<close>

datatype arguments = ArgText string | ArgValue json

record ToolCallRequest =
  tcr_id :: string
  tcr_name :: string
  tcr_arguments :: arguments

record ConversationMessage =
  m_role :: string
  m_content :: string
  m_tool_calls :: "ToolCallRequest list option"
  m_tool_call_id :: "string option"
  m_timestamp :: int

record Conversation =
  c_id :: string
  c_user :: UserContext
  c_messages :: "ConversationMessage list"
  c_created_at :: int
  c_updated_at :: int

text \<open>Times are microseconds, the resolution of \<open>datetime\<close>; \<open>cm_ttl\<close> is the timedelta.\<close>

record ConversationManager =
  cm_max_length :: int
  cm_ttl :: int
  cm_conversations :: "(string \<times> Conversation) list"

text \<open>The slice \<open>xs[i:]\<close>: a negative \<open>i\<close> counts from the end, and \<open>-0\<close> is \<open>0\<close>.\<close>

definition slice_from :: "'a list \<Rightarrow> int \<Rightarrow> 'a list" where
  "slice_from xs i =
     (let n = int (length xs);
          start = (if i < 0 then max (n + i) 0 else min i n)
      in drop (nat start) xs)"

definition delete :: "ConversationManager \<Rightarrow> string \<Rightarrow> bool \<times> ConversationManager" where
  "delete cm conversation_id =
     (if conversation_id \<in> fst ` set (cm_conversations cm)
      then (True, cm\<lparr>cm_conversations :=
                        filter (\<lambda>(k, c). k \<noteq> conversation_id) (cm_conversations cm)\<rparr>)
      else (False, cm))"

text \<open>
  \<open>get\<close> of the conversation manager; \<open>now\<close> is \<open>datetime.utcnow()\<close>. An expired
  conversation is deleted by the lookup.
\<close>

definition get_conversation ::
  "int \<Rightarrow> ConversationManager \<Rightarrow> string \<Rightarrow> Conversation option \<times> ConversationManager" where
  "get_conversation now cm conversation_id =
     (case dict_get (cm_conversations cm) conversation_id of
        None \<Rightarrow> (None, cm)
      | Some conversation \<Rightarrow>
          if now - c_updated_at conversation > cm_ttl cm
          then (None, snd (delete cm conversation_id))
          else (Some conversation, cm))"

text \<open>The pruning step of \<open>add_message\<close>, on the message list after the append.\<close>

definition prune :: "int \<Rightarrow> ConversationMessage list \<Rightarrow> ConversationMessage list" where
  "prune max_length messages =
     (if int (length messages) > max_length then
        let system_msgs = filter (\<lambda>m. m_role m = ''system'') messages;
            other_msgs = filter (\<lambda>m. m_role m \<noteq> ''system'') messages;
            keep_count = max_length - int (length system_msgs)
        in system_msgs @ slice_from other_msgs (- keep_count)
      else messages)"

text \<open>
  \<open>add_message\<close>. The clock readings of one call (expiry test, time stamp of the
  message, \<open>updated_at\<close>) are taken as the one instant \<open>now\<close>.
\<close>

definition add_message ::
  "int \<Rightarrow> ConversationManager \<Rightarrow> string \<Rightarrow> string \<Rightarrow> string \<Rightarrow> ToolCallRequest list option
     \<Rightarrow> string option \<Rightarrow> ConversationMessage option \<times> ConversationManager" where
  "add_message now cm conversation_id role content tool_calls tool_call_id =
     (case get_conversation now cm conversation_id of
        (None, cm1) \<Rightarrow> (None, cm1)
      | (Some conversation, cm1) \<Rightarrow>
          let message = \<lparr>m_role = role, m_content = content, m_tool_calls = tool_calls,
                         m_tool_call_id = tool_call_id, m_timestamp = now\<rparr>;
              conversation1 =
                conversation\<lparr>c_messages := prune (cm_max_length cm1)
                                                (c_messages conversation @ [message]),
                              c_updated_at := now\<rparr>
          in (Some message,
              cm1\<lparr>cm_conversations :=
                    dict_set (cm_conversations cm1) conversation_id conversation1\<rparr>))"

definition add_user_message ::
  "int \<Rightarrow> ConversationManager \<Rightarrow> string \<Rightarrow> string
     \<Rightarrow> ConversationMessage option \<times> ConversationManager" where
  "add_user_message now cm conversation_id content =
     add_message now cm conversation_id ''user'' content None None"

definition add_assistant_message ::
  "int \<Rightarrow> ConversationManager \<Rightarrow> string \<Rightarrow> string \<Rightarrow> ToolCallRequest list option
     \<Rightarrow> ConversationMessage option \<times> ConversationManager" where
  "add_assistant_message now cm conversation_id content tool_calls =
     add_message now cm conversation_id ''assistant'' content tool_calls None"

definition add_tool_result ::
  "int \<Rightarrow> ConversationManager \<Rightarrow> string \<Rightarrow> string \<Rightarrow> string
     \<Rightarrow> ConversationMessage option \<times> ConversationManager" where
  "add_tool_result now cm conversation_id tool_call_id content =
     add_message now cm conversation_id ''tool'' content None (Some tool_call_id)"

definition get_messages ::
  "int \<Rightarrow> ConversationManager \<Rightarrow> string \<Rightarrow> bool
     \<Rightarrow> ConversationMessage list \<times> ConversationManager" where
  "get_messages now cm conversation_id include_system =
     (case get_conversation now cm conversation_id of
        (None, cm1) \<Rightarrow> ([], cm1)
      | (Some conversation, cm1) \<Rightarrow>
          (if \<not> include_system
           then filter (\<lambda>m. m_role m \<noteq> ''system'') (c_messages conversation)
           else c_messages conversation,
           cm1))"

section \<open>AI gateway: the tool-calling loop (orchestrator/gateway.py)\<close>

record LLMResponse =
  lr_content :: "string option"
  lr_tool_calls :: "ToolCallRequest list option"
  lr_finish_reason :: string

text \<open>
  The gateway's collaborators. The model and the execution client are outside the
  program: the \<open>n\<close>-th call of each is a function of \<open>n\<close> and the arguments, and it
  returns or raises. \<open>json.loads\<close> gives \<open>None\<close> for a \<open>JSONDecodeError\<close>;
  \<open>g_utcnow k\<close> is the clock at the \<open>k\<close>-th operation on the conversation store.
\<close>

record GatewayEnv =
  g_max_tool_iterations :: int
  g_complete :: "nat \<Rightarrow> ConversationMessage list \<Rightarrow> json list option \<Rightarrow> py_error + LLMResponse"
  g_execute :: "nat \<Rightarrow> string \<Rightarrow> json \<Rightarrow> string \<Rightarrow> py_error + ToolResult"
  g_json_loads :: "string \<Rightarrow> json option"
  g_json_dumps :: "json \<Rightarrow> string"
  g_utcnow :: "nat \<Rightarrow> int"

text \<open>
  The state the loop changes: the conversation store, and the calls made so far to the
  model (\<open>complete\<close>) and to the execution client (\<open>execute\<close>), with their arguments.
\<close>

record Orchestration =
  o_conversations :: ConversationManager
  o_store_ops :: nat
  o_llm_calls :: "(ConversationMessage list \<times> json list option) list"
  o_execute_calls :: "(string \<times> json \<times> string) list"

definition conv_get_messages ::
  "GatewayEnv \<Rightarrow> string \<Rightarrow> Orchestration \<Rightarrow> ConversationMessage list \<times> Orchestration" where
  "conv_get_messages env conversation_id st =
     (let (messages, cm1) =
            get_messages (g_utcnow env (o_store_ops st)) (o_conversations st)
              conversation_id True
      in (messages, st\<lparr>o_conversations := cm1, o_store_ops := Suc (o_store_ops st)\<rparr>))"

definition conv_add_assistant_message ::
  "GatewayEnv \<Rightarrow> string \<Rightarrow> string \<Rightarrow> ToolCallRequest list option \<Rightarrow> Orchestration
     \<Rightarrow> Orchestration" where
  "conv_add_assistant_message env conversation_id content tool_calls st =
     (let (added, cm1) =
            add_assistant_message (g_utcnow env (o_store_ops st)) (o_conversations st)
              conversation_id content tool_calls
      in st\<lparr>o_conversations := cm1, o_store_ops := Suc (o_store_ops st)\<rparr>)"

definition conv_add_tool_result ::
  "GatewayEnv \<Rightarrow> string \<Rightarrow> string \<Rightarrow> string \<Rightarrow> Orchestration \<Rightarrow> Orchestration" where
  "conv_add_tool_result env conversation_id tool_call_id content st =
     (let (added, cm1) =
            add_tool_result (g_utcnow env (o_store_ops st)) (o_conversations st)
              conversation_id tool_call_id content
      in st\<lparr>o_conversations := cm1, o_store_ops := Suc (o_store_ops st)\<rparr>)"

text \<open>The call of \<open>mcp_client.execute\<close>, recorded in the state.\<close>

definition client_execute ::
  "GatewayEnv \<Rightarrow> string \<Rightarrow> json \<Rightarrow> string \<Rightarrow> Orchestration
     \<Rightarrow> (py_error + ToolResult) \<times> Orchestration" where
  "client_execute env tool_name parameters request_id st =
     (g_execute env (length (o_execute_calls st)) tool_name parameters request_id,
      st\<lparr>o_execute_calls := o_execute_calls st @ [(tool_name, parameters, request_id)]\<rparr>)"

text \<open>\<open>_execute_tool_call\<close>: malformed argument text never reaches the client.\<close>

definition execute_tool_call ::
  "GatewayEnv \<Rightarrow> ToolCallRequest \<Rightarrow> string \<Rightarrow> Orchestration
     \<Rightarrow> (py_error + ToolResult) \<times> Orchestration" where
  "execute_tool_call env tool_call request_id st =
     (let tool_name = tcr_name tool_call in
      case tcr_arguments tool_call of
        ArgText args_str \<Rightarrow>
          (case g_json_loads env args_str of
             None \<Rightarrow>
               (Inr ((new_result tool_name VALIDATION_ERROR)
                       \<lparr>tr_error := Some ''Invalid tool call arguments''\<rparr>), st)
           | Some parameters \<Rightarrow> client_execute env tool_name parameters request_id st)
      | ArgValue parameters \<Rightarrow> client_execute env tool_name parameters request_id st)"

fun status_value :: "ToolResultStatus \<Rightarrow> string" where
  "status_value SUCCESS = ''success''"
| "status_value ERROR = ''error''"
| "status_value UNAUTHORIZED = ''unauthorized''"
| "status_value NOT_FOUND = ''not_found''"
| "status_value VALIDATION_ERROR = ''validation_error''"
| "status_value TIMEOUT = ''timeout''"

definition format_tool_result :: "GatewayEnv \<Rightarrow> ToolResult \<Rightarrow> string" where
  "format_tool_result env result =
     (if tr_status result = SUCCESS then
        (case tr_data result of
           JNull \<Rightarrow> ''Tool executed successfully.''
         | JStr text \<Rightarrow> text
         | d \<Rightarrow> g_json_dumps env d)
      else ''Tool error ('' @ status_value (tr_status result) @ ''): ''
             @ (case tr_error result of
                  None \<Rightarrow> ''Unknown error''
                | Some e \<Rightarrow> if e \<noteq> [] then e else ''Unknown error''))"

text \<open>
  The inner \<open>for tool_call in llm_response.tool_calls\<close>: \<open>Some e\<close> is an exception of
  the execution client, which ends the loop.
\<close>

fun execute_tool_calls ::
  "GatewayEnv \<Rightarrow> string \<Rightarrow> string \<Rightarrow> ToolCallRequest list \<Rightarrow> Orchestration
     \<Rightarrow> py_error option \<times> Orchestration" where
  "execute_tool_calls env conversation_id request_id [] st = (None, st)"
| "execute_tool_calls env conversation_id request_id (tool_call # rest) st =
     (case execute_tool_call env tool_call request_id st of
        (Inl e, st1) \<Rightarrow> (Some e, st1)
      | (Inr result, st1) \<Rightarrow>
          execute_tool_calls env conversation_id request_id rest
            (conv_add_tool_result env conversation_id (tcr_id tool_call)
               (format_tool_result env result) st1))"

definition no_response_message :: string where
  "no_response_message = ''I apologize, but I couldn'' @ quote @ ''t generate a response.''"

definition max_iterations_message :: string where
  "max_iterations_message =
     ''I apologize, but I wasn'' @ quote
       @ ''t able to complete the task within the allowed number of steps.''"

text \<open>
  The \<open>while iterations < self.max_tool_iterations\<close> loop of \<open>_process_with_tools\<close>,
  from a given value of \<open>iterations\<close>. \<open>Inl\<close> is an exception that leaves the method.
\<close>

function process_loop ::
  "GatewayEnv \<Rightarrow> string \<Rightarrow> json list \<Rightarrow> string \<Rightarrow> int \<Rightarrow> Orchestration
     \<Rightarrow> (py_error + string) \<times> Orchestration" where
  "process_loop env conversation_id tools request_id iterations st =
     (if iterations < g_max_tool_iterations env then
        let iterations1 = iterations + 1;
            (messages, st1) = conv_get_messages env conversation_id st;
            tools_arg = (if tools \<noteq> [] then Some tools else None);
            st2 = st1\<lparr>o_llm_calls := o_llm_calls st1 @ [(messages, tools_arg)]\<rparr>
        in case g_complete env (length (o_llm_calls st1)) messages tools_arg of
             Inl e \<Rightarrow> (Inl e, st2)
           | Inr llm_response \<Rightarrow>
               (case lr_tool_calls llm_response of
                  Some (tool_call # rest) \<Rightarrow>
                    let st3 = conv_add_assistant_message env conversation_id
                                (case lr_content llm_response of None \<Rightarrow> [] | Some c \<Rightarrow> c)
                                (lr_tool_calls llm_response) st2
                    in (case execute_tool_calls env conversation_id request_id
                               (tool_call # rest) st3 of
                          (Some e, st4) \<Rightarrow> (Inl e, st4)
                        | (None, st4) \<Rightarrow>
                            process_loop env conversation_id tools request_id iterations1 st4)
                | _ \<Rightarrow>
                    (Inr (case lr_content llm_response of
                            None \<Rightarrow> no_response_message
                          | Some c \<Rightarrow> if c \<noteq> [] then c else no_response_message),
                     st2))
      else (Inr max_iterations_message, st))"
  by pat_completeness auto
termination
  by (relation "measure (\<lambda>(env, conversation_id, tools, request_id, iterations, st).
                   nat (g_max_tool_iterations env - iterations))") auto

declare process_loop.simps [simp del]

definition process_with_tools ::
  "GatewayEnv \<Rightarrow> string \<Rightarrow> json list \<Rightarrow> string \<Rightarrow> Orchestration
     \<Rightarrow> (py_error + string) \<times> Orchestration" where
  "process_with_tools env conversation_id tools request_id st =
     process_loop env conversation_id tools request_id 0 st"

section \<open>Example values\<close>

definition mk_tool :: "string \<Rightarrow> string \<Rightarrow> Permission \<Rightarrow> bool \<Rightarrow> ToolDefinition" where
  "mk_tool n d p dep =
     \<lparr>td_name = n, td_domain = d, td_description = ''Test'', td_version = ''1.0.0'',
      td_input_schema = [], td_output_schema = [], td_execution_type = READ,
      td_permissions = p, td_tags = [], td_deprecated = dep\<rparr>"

definition hr_tool :: ToolDefinition where
  "hr_tool =
     mk_tool ''get_employee'' ''hr'' \<lparr>p_level = USER, p_roles = [], p_scopes = []\<rparr> False"

definition books_tool :: ToolDefinition where
  "books_tool =
     mk_tool ''close_books'' ''erp''
       \<lparr>p_level = ADMIN, p_roles = [''finance''], p_scopes = [''erp:write'']\<rparr> False"

definition old_tool :: ToolDefinition where
  "old_tool =
     mk_tool ''old_lookup'' ''hr'' \<lparr>p_level = PUBLIC, p_roles = [], p_scopes = []\<rparr> True"

definition mk_user :: "string \<Rightarrow> string list \<Rightarrow> string list \<Rightarrow> UserContext" where
  "mk_user n rs ps =
     \<lparr>u_user_id = n, u_username = n, u_email = None, u_roles = rs, u_permissions = ps\<rparr>"

definition mk_context :: "UserContext \<Rightarrow> ExecutionContext" where
  "mk_context u =
     \<lparr>ec_request_id = ''req1'', ec_user = u, ec_timestamp = 0,
      ec_source = ''mcp_client'', ec_correlation_id = None\<rparr>"

definition mk_message :: "string \<Rightarrow> string \<Rightarrow> int \<Rightarrow> ConversationMessage" where
  "mk_message role content t =
     \<lparr>m_role = role, m_content = content, m_tool_calls = None, m_tool_call_id = None,
      m_timestamp = t\<rparr>"

text \<open>A manager with the one conversation \<open>c1\<close>, last updated at time 0, TTL one hour.\<close>

definition mk_manager :: "int \<Rightarrow> ConversationMessage list \<Rightarrow> ConversationManager" where
  "mk_manager cap msgs =
     \<lparr>cm_max_length = cap, cm_ttl = 3600000000,
      cm_conversations =
        [(''c1'', \<lparr>c_id = ''c1'', c_user = mk_user ''alice'' [''user''] [], c_messages = msgs,
                   c_created_at = 0, c_updated_at = 0\<rparr>)]\<rparr>"

definition example_env :: Env where
  "example_env =
     \<lparr>env_time_start = 10, env_time_end = 12, env_uuid = ''audit-1'', env_utcnow = 0,
      env_io = WriteOk, env_iter_errors = (\<lambda>schema data. Inr [])\<rparr>"

text \<open>A router whose audit logger is enabled and empty.\<close>

definition mk_router :: "ToolRegistry \<Rightarrow> (string \<times> AdapterExecutor) list \<Rightarrow> ToolRouter" where
  "mk_router reg adapters =
     \<lparr>rt_registry = reg,
      rt_audit_logger = \<lparr>al_enabled = True, al_buffer_size = 100, al_buffer = [], al_file = []\<rparr>,
      rt_adapters = adapters\<rparr>"

definition mk_call :: "string \<Rightarrow> pydict \<Rightarrow> UserContext \<Rightarrow> ToolCall" where
  "mk_call n params u = \<lparr>tc_tool_name = n, tc_parameters = params, tc_context = mk_context u\<rparr>"

definition example_registry :: ToolRegistry where
  "example_registry =
     \<lparr>r_tools = [(''hr.get_employee'', hr_tool), (''erp.close_books'', books_tool)],
      r_domains = {''hr'', ''erp''}\<rparr>"

definition hr_adapter :: AdapterExecutor where
  "hr_adapter action parameters context =
     (if action = ''get_employee''
      then ReturnsResult
             ((new_result ''hr.get_employee'' SUCCESS)
                \<lparr>tr_data := JDict [(''name'', JStr ''Alice''),
                                   (''department'', JStr ''Engineering'')]\<rparr>)
      else Raises ''Unknown action'')"

text \<open>A router as \<open>mk_router\<close> builds it, with audit logging switched off.\<close>

definition mk_silent_router ::
  "ToolRegistry \<Rightarrow> (string \<times> AdapterExecutor) list \<Rightarrow> ToolRouter" where
  "mk_silent_router reg adapters =
     \<lparr>rt_registry = reg,
      rt_audit_logger = \<lparr>al_enabled = False, al_buffer_size = 100, al_buffer = [], al_file = []\<rparr>,
      rt_adapters = adapters\<rparr>"

text \<open>
  A gateway whose model asks for \<open>calls_per_turn\<close> calls of \<open>test.action\<close> on every
  turn, and whose execution client always succeeds.
\<close>

definition always_tool_calls_env :: "int \<Rightarrow> nat \<Rightarrow> GatewayEnv" where
  "always_tool_calls_env max_iterations calls_per_turn =
     \<lparr>g_max_tool_iterations = max_iterations,
      g_complete =
        (\<lambda>n messages tools.
           Inr \<lparr>lr_content = Some [],
                lr_tool_calls =
                  Some (replicate calls_per_turn
                          \<lparr>tcr_id = ''call_1'', tcr_name = ''test.action'',
                           tcr_arguments = ArgText ''{}''\<rparr>),
                lr_finish_reason = ''tool_calls''\<rparr>),
      g_execute =
        (\<lambda>n tool_name parameters request_id.
           Inr ((new_result ''test.action'' SUCCESS)\<lparr>tr_data := JDict []\<rparr>)),
      g_json_loads = (\<lambda>s. if s = ''{}'' then Some (JDict []) else None),
      g_json_dumps = (\<lambda>v. ''{}''),
      g_utcnow = (\<lambda>k. int k)\<rparr>"

definition start_orchestration :: Orchestration where
  "start_orchestration =
     \<lparr>o_conversations =
        mk_manager 50 [mk_message ''system'' ''You are a helpful AI assistant'' 0,
                       mk_message ''user'' ''Do something'' 0],
      o_store_ops = 0, o_llm_calls = [], o_execute_calls = []\<rparr>"

section \<open>Registry: registration and lookup\<close>

lemma map_of_dict_set: "map_of (dict_set d k v) = (map_of d)(k \<mapsto> v)"
  by (induction d) auto

lemma dict_set_fresh: "k \<notin> fst ` set d \<Longrightarrow> dict_set d k v = d @ [(k, v)]"
  by (induction d) auto

text \<open>
  C8: \<open>register\<close> raises the duplicate-tool error exactly when the tool's qualified name
  is already a key of the registry; the raise happens before any mutation, so the registry
  (here: the state the caller still holds, \<open>reg\<close>) keeps the first registration; and after
  a successful \<open>register\<close>, \<open>get\<close> on the qualified name returns exactly the definition
  that was passed in.
\<close>

theorem register_duplicate_iff_and_roundtrip:
  "((\<exists>e. register reg tool = Inl e) \<longleftrightarrow> get reg (qualified_name tool) \<noteq> None)
   \<and> (get reg (qualified_name tool) \<noteq> None \<longrightarrow>
        register reg tool =
          Inl (ValueError (''Tool '' @ quote @ qualified_name tool @ quote
                            @ '' is already registered'')))
   \<and> (\<forall>reg'. register reg tool = Inr reg' \<longrightarrow>
        get reg' (qualified_name tool) = Some tool
        \<and> (\<forall>n. n \<noteq> qualified_name tool \<longrightarrow> get reg' n = get reg n))"
proof -
  have key: "get reg (qualified_name tool) \<noteq> None
               \<longleftrightarrow> qualified_name tool \<in> fst ` set (r_tools reg)"
    by (simp add: get_def dict_get_def map_of_eq_None_iff)
  show ?thesis
    unfolding key
    by (auto simp: register_def Let_def get_def dict_get_def map_of_dict_set)
qed

theorem register_duplicate_iff_and_roundtrip_witness:
  "(\<exists>reg'. register empty_registry hr_tool = Inr reg'
      \<and> get reg' ''hr.get_employee'' = Some hr_tool
      \<and> (\<exists>e. register reg' hr_tool = Inl e))"
proof -
  have qn: "qualified_name hr_tool = ''hr.get_employee''"
    by (simp add: qualified_name_def hr_tool_def mk_tool_def)
  obtain reg' where r: "register empty_registry hr_tool = Inr reg'"
    by (simp add: register_def empty_registry_def Let_def)
  from register_duplicate_iff_and_roundtrip [of empty_registry hr_tool] r
  have g: "get reg' ''hr.get_employee'' = Some hr_tool" by (simp add: qn)
  with register_duplicate_iff_and_roundtrip [of reg' hr_tool]
  have "\<exists>e. register reg' hr_tool = Inl e" by (simp add: qn)
  with r g show ?thesis by blast
qed

section \<open>Registry: the listing for the model\<close>

lemma list_ex_member_iff: "list_ex (\<lambda>x. x \<in> set ys) xs \<longleftrightarrow> set xs \<inter> set ys \<noteq> {}"
  by (auto simp: list_ex_iff)

lemma select_tools_for_llm_filter:
  "select_tools_for_llm reg domains (Some roles) =
     filter (\<lambda>t. \<not> td_deprecated t
                 \<and> (case domains of None \<Rightarrow> True | Some ds \<Rightarrow> ds = [] \<or> td_domain t \<in> set ds)
                 \<and> (p_level (td_permissions t) = PUBLIC
                      \<or> set roles \<inter> set (p_roles (td_permissions t)) \<noteq> {}
                      \<or> (p_level (td_permissions t) = USER \<and> roles \<noteq> [])))
       (dict_values (r_tools reg))"
  by (cases domains)
     (auto simp: select_tools_for_llm_def list_tools_def Let_def llm_permitted_def
                 list_ex_member_iff intro!: filter_cong)

text \<open>
  C9, as the code has it: with caller roles supplied, the listing is the descriptors, in
  registration order, of exactly those registered tools that are not deprecated, that
  pass the domain filter when a non-empty one is given, and whose permission level is
  public, or whose required roles meet the caller's roles, or whose level is user while
  the caller has at least one role.
\<close>

theorem get_tools_for_llm_listing:
  "get_tools_for_llm reg domains (Some roles) =
     map llm_format
       (filter (\<lambda>t. \<not> td_deprecated t
                   \<and> (case domains of None \<Rightarrow> True | Some ds \<Rightarrow> ds = [] \<or> td_domain t \<in> set ds)
                   \<and> (p_level (td_permissions t) = PUBLIC
                        \<or> set roles \<inter> set (p_roles (td_permissions t)) \<noteq> {}
                        \<or> (p_level (td_permissions t) = USER \<and> roles \<noteq> [])))
          (dict_values (r_tools reg)))"
  by (simp only: get_tools_for_llm_def select_tools_for_llm_filter)

text \<open>
  A deprecated public tool is registered and found by \<open>get\<close>, yet the listing for a
  caller with roles leaves it out.
\<close>

theorem get_tools_for_llm_deprecated_counterexample:
  "get \<lparr>r_tools = [(''hr.old_lookup'', old_tool)], r_domains = {''hr''}\<rparr> ''hr.old_lookup''
     = Some old_tool
   \<and> register empty_registry old_tool
       = Inr \<lparr>r_tools = [(''hr.old_lookup'', old_tool)], r_domains = {''hr''}\<rparr>
   \<and> p_level (td_permissions old_tool) = PUBLIC
   \<and> get_tools_for_llm \<lparr>r_tools = [(''hr.old_lookup'', old_tool)], r_domains = {''hr''}\<rparr>
        None (Some [''user'']) = []"
  by (simp add: get_def dict_get_def register_def empty_registry_def Let_def
        qualified_name_def old_tool_def mk_tool_def get_tools_for_llm_def
        select_tools_for_llm_def list_tools_def dict_values_def)

theorem get_tools_for_llm_listing_witness:
  "get_tools_for_llm \<lparr>r_tools = [(''hr.old_lookup'', old_tool), (''hr.get_employee'', hr_tool),
                                  (''erp.close_books'', books_tool)],
                      r_domains = {''hr'', ''erp''}\<rparr> (Some [''hr'']) (Some [''user''])
     = [llm_format hr_tool]"
  using get_tools_for_llm_listing
          [of "\<lparr>r_tools = [(''hr.old_lookup'', old_tool), (''hr.get_employee'', hr_tool),
                           (''erp.close_books'', books_tool)],
                r_domains = {''hr'', ''erp''}\<rparr>" "Some [''hr'']" "[''user'']"]
  by (simp add: dict_values_def old_tool_def hr_tool_def books_tool_def mk_tool_def)

section \<open>Authorization: the order of the gates\<close>

text \<open>
  C3: \<open>authorize_request\<close> checks public, system, admin, required roles, required
  scopes in this order, and the first failing gate gives the denial and its reason: a
  public tool is allowed whatever the identity; a failing system or admin gate wins over
  the role and scope gates; a failing role gate wins over the scope gate; each reason
  names its gate. The gates add up: an admin-level tool with required roles is allowed
  only to an identity that has role admin and one of the required roles, and one of the
  required scopes when scopes are required.
\<close>

theorem authorize_request_gates:
  "(p_level (td_permissions tool) = PUBLIC \<longrightarrow>
        authorize_request tool user ctx = (True, None))
   \<and> (p_level (td_permissions tool) = SYSTEM \<and> ''system'' \<notin> set (u_roles user) \<longrightarrow>
        authorize_request tool user ctx = (False, Some ''System-level access required''))
   \<and> (p_level (td_permissions tool) = ADMIN \<and> ''admin'' \<notin> set (u_roles user) \<longrightarrow>
        authorize_request tool user ctx = (False, Some ''Admin access required''))
   \<and> (p_level (td_permissions tool) \<noteq> PUBLIC
        \<and> (p_level (td_permissions tool) = SYSTEM \<longrightarrow> ''system'' \<in> set (u_roles user))
        \<and> (p_level (td_permissions tool) = ADMIN \<longrightarrow> ''admin'' \<in> set (u_roles user))
        \<and> p_roles (td_permissions tool) \<noteq> []
        \<and> set (p_roles (td_permissions tool)) \<inter> set (u_roles user) = {} \<longrightarrow>
        authorize_request tool user ctx
          = (False, Some (''Required roles: '' @ join '', '' (p_roles (td_permissions tool)))))
   \<and> (p_level (td_permissions tool) \<noteq> PUBLIC
        \<and> (p_level (td_permissions tool) = SYSTEM \<longrightarrow> ''system'' \<in> set (u_roles user))
        \<and> (p_level (td_permissions tool) = ADMIN \<longrightarrow> ''admin'' \<in> set (u_roles user))
        \<and> (p_roles (td_permissions tool) = []
             \<or> set (p_roles (td_permissions tool)) \<inter> set (u_roles user) \<noteq> {})
        \<and> p_scopes (td_permissions tool) \<noteq> []
        \<and> set (p_scopes (td_permissions tool)) \<inter> set (u_permissions user) = {} \<longrightarrow>
        authorize_request tool user ctx
          = (False, Some (''Required scopes: '' @ join '', '' (p_scopes (td_permissions tool)))))
   \<and> (fst (authorize_request tool user ctx) \<longleftrightarrow>
        p_level (td_permissions tool) = PUBLIC
        \<or> ((p_level (td_permissions tool) = SYSTEM \<longrightarrow> ''system'' \<in> set (u_roles user))
            \<and> (p_level (td_permissions tool) = ADMIN \<longrightarrow> ''admin'' \<in> set (u_roles user))
            \<and> (p_roles (td_permissions tool) = []
                 \<or> set (p_roles (td_permissions tool)) \<inter> set (u_roles user) \<noteq> {})
            \<and> (p_scopes (td_permissions tool) = []
                 \<or> set (p_scopes (td_permissions tool)) \<inter> set (u_permissions user) \<noteq> {})))
   \<and> (p_level (td_permissions tool) = ADMIN \<and> p_roles (td_permissions tool) \<noteq> []
        \<and> fst (authorize_request tool user ctx) \<longrightarrow>
        ''admin'' \<in> set (u_roles user)
        \<and> set (p_roles (td_permissions tool)) \<inter> set (u_roles user) \<noteq> {}
        \<and> (p_scopes (td_permissions tool) \<noteq> [] \<longrightarrow>
              set (p_scopes (td_permissions tool)) \<inter> set (u_permissions user) \<noteq> {}))
   \<and> (snd (authorize_request tool user ctx) = Some ''System-level access required'' \<longrightarrow>
        p_level (td_permissions tool) = SYSTEM \<and> ''system'' \<notin> set (u_roles user))
   \<and> (snd (authorize_request tool user ctx) = Some ''Admin access required'' \<longrightarrow>
        p_level (td_permissions tool) = ADMIN \<and> ''admin'' \<notin> set (u_roles user))
   \<and> (\<forall>s. snd (authorize_request tool user ctx) = Some (''Required roles: '' @ s) \<longrightarrow>
        p_roles (td_permissions tool) \<noteq> []
        \<and> set (p_roles (td_permissions tool)) \<inter> set (u_roles user) = {})
   \<and> (\<forall>s. snd (authorize_request tool user ctx) = Some (''Required scopes: '' @ s) \<longrightarrow>
        p_scopes (td_permissions tool) \<noteq> []
        \<and> set (p_scopes (td_permissions tool)) \<inter> set (u_permissions user) = {})"
  by (simp add: authorize_request_def Let_def list_ex_member_iff Int_commute)

theorem authorize_request_gates_witness:
  "authorize_request books_tool (mk_user ''bob'' [''admin''] [''erp:write''])
       (mk_context (mk_user ''bob'' [''admin''] [''erp:write'']))
     = (False, Some ''Required roles: finance'')
   \<and> authorize_request books_tool (mk_user ''carol'' [''finance''] [''erp:write''])
       (mk_context (mk_user ''carol'' [''finance''] [''erp:write'']))
     = (False, Some ''Admin access required'')
   \<and> authorize_request books_tool (mk_user ''dan'' [''admin'', ''finance''] [])
       (mk_context (mk_user ''dan'' [''admin'', ''finance''] []))
     = (False, Some ''Required scopes: erp:write'')
   \<and> fst (authorize_request books_tool (mk_user ''alice'' [''finance'', ''admin''] [''erp:write''])
       (mk_context (mk_user ''alice'' [''finance'', ''admin''] [''erp:write''])))"
  using authorize_request_gates
          [of books_tool "mk_user ''bob'' [''admin''] [''erp:write'']"
              "mk_context (mk_user ''bob'' [''admin''] [''erp:write''])"]
        authorize_request_gates
          [of books_tool "mk_user ''carol'' [''finance''] [''erp:write'']"
              "mk_context (mk_user ''carol'' [''finance''] [''erp:write''])"]
        authorize_request_gates
          [of books_tool "mk_user ''dan'' [''admin'', ''finance''] []"
              "mk_context (mk_user ''dan'' [''admin'', ''finance''] [])"]
        authorize_request_gates
          [of books_tool "mk_user ''alice'' [''finance'', ''admin''] [''erp:write'']"
              "mk_context (mk_user ''alice'' [''finance'', ''admin''] [''erp:write''])"]
  by (simp add: books_tool_def mk_tool_def mk_user_def)

section \<open>Audit: flushing the buffer\<close>

text \<open>
  C7: when the write of a flush fails, whatever part of it reached the file, the buffer
  afterwards holds exactly the entries that were pending when the flush began, in their
  order and from the front, so the next flush writes all of them; and flushing an empty
  buffer changes nothing.
\<close>

theorem flush_failure_keeps_entries:
  "al_buffer (flush (WriteFails n) a) = al_buffer a
   \<and> al_file (flush (WriteFails n) a) = al_file a @ take n (al_buffer a)
   \<and> al_buffer (flush WriteOk (flush (WriteFails n) a)) = []
   \<and> al_file (flush WriteOk (flush (WriteFails n) a))
        = al_file a @ take n (al_buffer a) @ al_buffer a
   \<and> flush io (a\<lparr>al_buffer := []\<rparr>) = a\<lparr>al_buffer := []\<rparr>"
  by (simp add: flush_def flush_buffer_def Let_def)

section \<open>Audit: redaction\<close>

lemma redact_loop_map:
  "distinct (map fst items) \<Longrightarrow> fst ` set items \<inter> fst ` set acc = {} \<Longrightarrow>
   redact_loop items acc =
     acc @ map (\<lambda>(key, val).
                  (key, if lower key \<in> SENSITIVE_PARAMS then REDACTED
                        else case val of JDict d \<Rightarrow> JDict (redact_loop d []) | _ \<Rightarrow> val))
             items"
proof (induction items arbitrary: acc)
  case Nil
  show ?case by simp
next
  case (Cons a items)
  obtain key val where a: "a = (key, val)" by (cases a)
  let ?v = "if lower key \<in> SENSITIVE_PARAMS then REDACTED
            else case val of JDict d \<Rightarrow> JDict (redact_loop d []) | _ \<Rightarrow> val"
  from Cons.prems have fresh: "key \<notin> fst ` set acc"
    and d: "distinct (map fst items)"
    and disj: "fst ` set items \<inter> fst ` set (acc @ [(key, ?v)]) = {}"
    by (auto simp: a)
  have "redact_loop (a # items) acc = redact_loop items (acc @ [(key, ?v)])"
    by (simp add: a dict_set_fresh [OF fresh])
  also have "\<dots> = (acc @ [(key, ?v)]) @ map (\<lambda>(key, val).
                  (key, if lower key \<in> SENSITIVE_PARAMS then REDACTED
                        else case val of JDict d \<Rightarrow> JDict (redact_loop d []) | _ \<Rightarrow> val))
             items"
    by (rule Cons.IH [OF d disj])
  finally show ?case by (simp add: a)
qed

lemma redact_sensitive_map:
  assumes "distinct (map fst params)"
  shows "redact_sensitive params =
           map (\<lambda>(key, val).
                  (key, if lower key \<in> SENSITIVE_PARAMS then REDACTED
                        else case val of JDict d \<Rightarrow> JDict (redact_sensitive d) | _ \<Rightarrow> val))
             params"
  unfolding redact_sensitive_def using redact_loop_map [OF assms, of "[]"] by simp

lemma redact_sensitive_keys:
  assumes "distinct (map fst params)"
  shows "map fst (redact_sensitive params) = map fst params"
  unfolding redact_sensitive_map [OF assms] by (induction params) auto

lemma lower_examples:
  "lower ''username'' = ''username''" "lower ''password'' = ''password''"
  "lower ''api_key'' = ''api_key''" "lower ''API_Key'' = ''api_key''"
  "lower ''users'' = ''users''" "lower ''login'' = ''login''" "lower ''Token'' = ''token''"
  "lower ''user'' = ''user''" "lower ''id'' = ''id''" "lower ''token'' = ''token''"
  by code_simp+

text \<open>
  C6: on a parameter map (a dictionary, so its keys are distinct) redaction keeps every
  key in its place; the value of a key whose lower-case form is in the denylist becomes
  the redaction marker; any other value that is itself a map is redacted recursively; and
  every other value passes through unchanged.
\<close>

theorem redact_sensitive_entries:
  assumes "distinct (map fst params)"
  shows "redact_sensitive params =
           map (\<lambda>(key, val).
                  (key, if lower key \<in> SENSITIVE_PARAMS then REDACTED
                        else case val of JDict d \<Rightarrow> JDict (redact_sensitive d) | _ \<Rightarrow> val))
             params
         \<and> map fst (redact_sensitive params) = map fst params"
  using redact_sensitive_map [OF assms] redact_sensitive_keys [OF assms] by simp

theorem redact_sensitive_entries_witness:
  "redact_sensitive [(''username'', JStr ''u''), (''password'', JStr ''p''), (''api_key'', JStr ''k'')]
     = [(''username'', JStr ''u''), (''password'', JStr ''[REDACTED]''),
        (''api_key'', JStr ''[REDACTED]'')]
   \<and> redact_sensitive [(''login'', JDict [(''user'', JStr ''u''), (''Token'', JStr ''t'')]),
                        (''API_Key'', JDict [(''id'', JInt 7)])]
     = [(''login'', JDict [(''user'', JStr ''u''), (''Token'', JStr ''[REDACTED]'')]),
        (''API_Key'', JStr ''[REDACTED]'')]"
  using redact_sensitive_entries
          [of "[(''username'', JStr ''u''), (''password'', JStr ''p''), (''api_key'', JStr ''k'')]"]
        redact_sensitive_entries
          [of "[(''login'', JDict [(''user'', JStr ''u''), (''Token'', JStr ''t'')]),
                (''API_Key'', JDict [(''id'', JInt 7)])]"]
        redact_sensitive_entries [of "[(''user'', JStr ''u''), (''Token'', JStr ''t'')]"]
  by (simp add: lower_examples SENSITIVE_PARAMS_def REDACTED_def)

lemma redact_sensitive_lookup:
  assumes "distinct (map fst params)"
    and "(key, val) \<in> set params"
  shows "dict_get (redact_sensitive params) key =
           Some (if lower key \<in> SENSITIVE_PARAMS then REDACTED
                 else case val of JDict d \<Rightarrow> JDict (redact_sensitive d) | _ \<Rightarrow> val)"
proof -
  have "(key, if lower key \<in> SENSITIVE_PARAMS then REDACTED
              else case val of JDict d \<Rightarrow> JDict (redact_sensitive d) | _ \<Rightarrow> val)
          \<in> set (redact_sensitive params)"
    unfolding redact_sensitive_map [OF assms(1)] using assms(2) by force
  moreover have "distinct (map fst (redact_sensitive params))"
    using assms(1) by (simp add: redact_sensitive_keys)
  ultimately show ?thesis
    by (simp add: dict_get_def)
qed

text \<open>
  C10, as the code has it: redaction does not descend into lists. In every parameter map,
  a list value under a key that is not itself denylisted is passed through unchanged,
  also when it holds maps with denylisted keys, and a list under a denylisted key is
  replaced as a whole by the redaction marker, so a list is never rewritten inside.
  Only values that are themselves maps are recursed into: every value that is not a
  map, under a key that is not denylisted, is passed through unchanged.
\<close>

theorem redact_sensitive_keeps_lists:
  assumes "distinct (map fst params)"
    and "(key, val) \<in> set params"
  shows "(\<forall>xs. val = JList xs \<longrightarrow>
            dict_get (redact_sensitive params) key
              = Some (if lower key \<in> SENSITIVE_PARAMS then REDACTED else JList xs))
         \<and> ((\<forall>d. val \<noteq> JDict d) \<and> lower key \<notin> SENSITIVE_PARAMS \<longrightarrow>
              dict_get (redact_sensitive params) key = Some val)"
  unfolding redact_sensitive_lookup [OF assms]
  by (cases val) simp_all

theorem redact_sensitive_keeps_lists_witness:
  "dict_get (redact_sensitive
               [(''note'', JStr ''n''),
                (''users'', JList [JDict [(''name'', JStr ''a''), (''password'', JStr ''p'')]])])
            ''users''
     = Some (JList [JDict [(''name'', JStr ''a''), (''password'', JStr ''p'')]])"
  using redact_sensitive_keeps_lists
          [of "[(''note'', JStr ''n''),
                (''users'', JList [JDict [(''name'', JStr ''a''), (''password'', JStr ''p'')]])]"
              "''users''" "JList [JDict [(''name'', JStr ''a''), (''password'', JStr ''p'')]]"]
  by (simp add: lower_examples SENSITIVE_PARAMS_def)

text \<open>
  A list under a denylisted key is not passed through: the whole value is replaced by
  the redaction marker.
\<close>

theorem redact_sensitive_list_under_denylisted_key_counterexample:
  "redact_sensitive [(''token'', JList [JInt 1, JInt 2])] = [(''token'', JStr ''[REDACTED]'')]
   \<and> dict_get (redact_sensitive [(''token'', JList [JInt 1, JInt 2])]) ''token''
       = Some (JStr ''[REDACTED]'')"
  by (simp add: redact_sensitive_def dict_get_def lower_examples SENSITIVE_PARAMS_def
        REDACTED_def)

section \<open>Conversations: pruning on append\<close>

lemma slice_from_last:
  "i < 0 \<Longrightarrow> slice_from xs i = drop (length xs - nat (- i)) xs"
  by (auto simp: slice_from_def Let_def max_def nat_diff_distrib'
           intro: arg_cong [where f = "\<lambda>n. drop n xs"])

lemma length_filter_split:
  "length (filter P xs) + length (filter (\<lambda>x. \<not> P x) xs) = length xs"
  by (induction xs) auto

lemma prune_over:
  assumes over: "cap < int (length msgs)"
    and room: "int (length (filter (\<lambda>m. m_role m = ''system'') msgs)) < cap"
  shows "prune cap msgs =
           filter (\<lambda>m. m_role m = ''system'') msgs
           @ drop (length (filter (\<lambda>m. m_role m \<noteq> ''system'') msgs)
                     - nat (cap - int (length (filter (\<lambda>m. m_role m = ''system'') msgs))))
               (filter (\<lambda>m. m_role m \<noteq> ''system'') msgs)"
  using assms by (simp add: prune_def Let_def slice_from_last)

lemma prune_over_length:
  assumes over: "cap < int (length msgs)"
    and room: "int (length (filter (\<lambda>m. m_role m = ''system'') msgs)) < cap"
  shows "int (length (prune cap msgs)) = cap"
proof -
  have "length (filter (\<lambda>m. m_role m = ''system'') msgs)
          + length (filter (\<lambda>m. m_role m \<noteq> ''system'') msgs) = length msgs"
    by (rule length_filter_split)
  with assms show ?thesis
    unfolding prune_over [OF assms] by simp
qed

lemma prune_subseq:
  assumes "msgs = filter (\<lambda>m. m_role m = ''system'') msgs
                    @ filter (\<lambda>m. m_role m \<noteq> ''system'') msgs"
    and over: "cap < int (length msgs)"
    and room: "int (length (filter (\<lambda>m. m_role m = ''system'') msgs)) < cap"
  shows "subseq (prune cap msgs) msgs"
proof -
  let ?S = "filter (\<lambda>m. m_role m = ''system'') msgs"
  let ?O = "filter (\<lambda>m. m_role m \<noteq> ''system'') msgs"
  let ?n = "length ?O - nat (cap - int (length ?S))"
  have "subseq (drop ?n ?O) (take ?n ?O @ drop ?n ?O)"
    by (rule subseq_drop_many) simp
  then have "subseq (drop ?n ?O) ?O" by simp
  then have "subseq (?S @ drop ?n ?O) (?S @ ?O)"
    by (simp add: subseq_append')
  with assms(1) show ?thesis
    unfolding prune_over [OF over room] by simp
qed


lemma filter_drop_filter_not:
  "filter P (drop n (filter (\<lambda>x. \<not> P x) xs)) = []"
  by (auto simp: filter_empty_conv dest: in_set_dropD)

lemma prune_keeps_system:
  assumes over: "cap < int (length msgs)"
    and room: "int (length (filter (\<lambda>m. m_role m = ''system'') msgs)) < cap"
  shows "filter (\<lambda>m. m_role m = ''system'') (prune cap msgs)
           = filter (\<lambda>m. m_role m = ''system'') msgs"
  unfolding prune_over [OF assms]
  using filter_drop_filter_not [of "\<lambda>m. m_role m = ''system''" _ msgs] by simp

lemma add_message_live:
  assumes live: "dict_get (cm_conversations cm) cid = Some conv"
    and fresh: "now - c_updated_at conv \<le> cm_ttl cm"
  shows "add_message now cm cid role content tool_calls tool_call_id =
           (Some \<lparr>m_role = role, m_content = content, m_tool_calls = tool_calls,
                   m_tool_call_id = tool_call_id, m_timestamp = now\<rparr>,
            cm\<lparr>cm_conversations :=
                 dict_set (cm_conversations cm) cid
                   (conv\<lparr>c_messages :=
                            prune (cm_max_length cm)
                              (c_messages conv
                                 @ [\<lparr>m_role = role, m_content = content,
                                      m_tool_calls = tool_calls,
                                      m_tool_call_id = tool_call_id, m_timestamp = now\<rparr>]),
                          c_updated_at := now\<rparr>)\<rparr>)"
  using assms by (simp add: add_message_def get_conversation_def Let_def)

text \<open>
  C5, as the code has it. An append to a live conversation that takes the message count
  past the cap, while fewer system messages than the cap are present, leaves exactly
  \<open>cap\<close> messages: all system-role messages, in their order, followed by the most
  recent \<open>cap - systemCount\<close> other messages, in their order. That is the original
  relative order whenever the system messages precede the others; in particular, with
  one system message at the head, that message is kept with exactly the \<open>cap - 1\<close>
  most recent others.
\<close>

theorem add_message_prunes:
  assumes live: "dict_get (cm_conversations cm) cid = Some conv"
    and fresh: "now - c_updated_at conv \<le> cm_ttl cm"
    and msg: "message = \<lparr>m_role = role, m_content = content, m_tool_calls = tool_calls,
                          m_tool_call_id = tool_call_id, m_timestamp = now\<rparr>"
    and all: "all = c_messages conv @ [message]"
    and over: "cm_max_length cm < int (length all)"
    and room: "int (length (filter (\<lambda>m. m_role m = ''system'') all)) < cm_max_length cm"
  shows "\<exists>cm' conv'.
           add_message now cm cid role content tool_calls tool_call_id = (Some message, cm')
           \<and> dict_get (cm_conversations cm') cid = Some conv'
           \<and> c_messages conv' =
               filter (\<lambda>m. m_role m = ''system'') all
               @ drop (length (filter (\<lambda>m. m_role m \<noteq> ''system'') all)
                         - nat (cm_max_length cm
                                  - int (length (filter (\<lambda>m. m_role m = ''system'') all))))
                   (filter (\<lambda>m. m_role m \<noteq> ''system'') all)
           \<and> int (length (c_messages conv')) = cm_max_length cm
           \<and> filter (\<lambda>m. m_role m = ''system'') (c_messages conv')
               = filter (\<lambda>m. m_role m = ''system'') all
           \<and> (all = filter (\<lambda>m. m_role m = ''system'') all
                       @ filter (\<lambda>m. m_role m \<noteq> ''system'') all
                \<longrightarrow> subseq (c_messages conv') all)
           \<and> (\<forall>s rest. all = s # rest \<and> m_role s = ''system''
                         \<and> filter (\<lambda>m. m_role m = ''system'') rest = []
                \<longrightarrow> c_messages conv' = s # drop (length rest - nat (cm_max_length cm - 1)) rest
                    \<and> int (length (drop (length rest - nat (cm_max_length cm - 1)) rest))
                        = cm_max_length cm - 1)"
proof -
  let ?conv' = "conv\<lparr>c_messages := prune (cm_max_length cm) all, c_updated_at := now\<rparr>"
  let ?cm' = "cm\<lparr>cm_conversations := dict_set (cm_conversations cm) cid ?conv'\<rparr>"
  have 1: "add_message now cm cid role content tool_calls tool_call_id = (Some message, ?cm')"
    using add_message_live [OF live fresh] by (simp add: msg all)
  have 2: "dict_get (cm_conversations ?cm') cid = Some ?conv'"
    by (simp add: dict_get_def map_of_dict_set)
  have 3: "c_messages ?conv' =
               filter (\<lambda>m. m_role m = ''system'') all
               @ drop (length (filter (\<lambda>m. m_role m \<noteq> ''system'') all)
                         - nat (cm_max_length cm
                                  - int (length (filter (\<lambda>m. m_role m = ''system'') all))))
                   (filter (\<lambda>m. m_role m \<noteq> ''system'') all)"
    using prune_over [OF over room] by simp
  have 4: "int (length (c_messages ?conv')) = cm_max_length cm"
    using prune_over_length [OF over room] by simp
  have 5: "filter (\<lambda>m. m_role m = ''system'') (c_messages ?conv')
               = filter (\<lambda>m. m_role m = ''system'') all"
    using prune_keeps_system [OF over room] by simp
  have 6: "all = filter (\<lambda>m. m_role m = ''system'') all
                       @ filter (\<lambda>m. m_role m \<noteq> ''system'') all
                \<longrightarrow> subseq (c_messages ?conv') all"
    using prune_subseq [OF _ over room] by simp
  have 7: "\<forall>s rest. all = s # rest \<and> m_role s = ''system''
                         \<and> filter (\<lambda>m. m_role m = ''system'') rest = []
                \<longrightarrow> c_messages ?conv' = s # drop (length rest - nat (cm_max_length cm - 1)) rest
                    \<and> int (length (drop (length rest - nat (cm_max_length cm - 1)) rest))
                        = cm_max_length cm - 1"
  proof (intro allI impI)
    fix s rest
    assume h: "all = s # rest \<and> m_role s = ''system''
                 \<and> filter (\<lambda>m. m_role m = ''system'') rest = []"
    then have others: "filter (\<lambda>m. m_role m \<noteq> ''system'') rest = rest"
      by (simp add: filter_empty_conv filter_id_conv)
    from h others 3 have a: "c_messages ?conv' = s # drop (length rest - nat (cm_max_length cm - 1)) rest"
      by simp
    from 4 a have "int (length (drop (length rest - nat (cm_max_length cm - 1)) rest))
                        = cm_max_length cm - 1"
      by simp
    with a show "c_messages ?conv' = s # drop (length rest - nat (cm_max_length cm - 1)) rest
                    \<and> int (length (drop (length rest - nat (cm_max_length cm - 1)) rest))
                        = cm_max_length cm - 1"
      by simp
  qed
  from 1 2 3 4 5 6 7 show ?thesis by blast
qed

theorem add_message_prunes_witness:
  "\<exists>cm' conv'.
     add_message 1 (mk_manager 3 [mk_message ''system'' ''p'' 0, mk_message ''user'' ''a'' 0,
                                  mk_message ''user'' ''b'' 0])
       ''c1'' ''user'' ''c'' None None = (Some (mk_message ''user'' ''c'' 1), cm')
     \<and> dict_get (cm_conversations cm') ''c1'' = Some conv'
     \<and> c_messages conv' = [mk_message ''system'' ''p'' 0, mk_message ''user'' ''b'' 0,
                            mk_message ''user'' ''c'' 1]"
proof -
  let ?conv = "\<lparr>c_id = ''c1'', c_user = mk_user ''alice'' [''user''] [],
                 c_messages = [mk_message ''system'' ''p'' 0, mk_message ''user'' ''a'' 0,
                               mk_message ''user'' ''b'' 0],
                 c_created_at = 0, c_updated_at = 0\<rparr>"
  let ?cm = "mk_manager 3 [mk_message ''system'' ''p'' 0, mk_message ''user'' ''a'' 0,
                            mk_message ''user'' ''b'' 0]"
  let ?all = "[mk_message ''system'' ''p'' 0, mk_message ''user'' ''a'' 0,
               mk_message ''user'' ''b'' 0, mk_message ''user'' ''c'' 1]"
  have live: "dict_get (cm_conversations ?cm) ''c1'' = Some ?conv"
    by (simp add: mk_manager_def dict_get_def)
  have fresh: "1 - c_updated_at ?conv \<le> cm_ttl ?cm"
    by (simp add: mk_manager_def)
  have msg: "mk_message ''user'' ''c'' 1 =
               \<lparr>m_role = ''user'', m_content = ''c'', m_tool_calls = None,
                m_tool_call_id = None, m_timestamp = 1\<rparr>"
    by (simp add: mk_message_def)
  have all: "?all = c_messages ?conv @ [mk_message ''user'' ''c'' 1]"
    by simp
  have over: "cm_max_length ?cm < int (length ?all)"
    by (simp add: mk_manager_def)
  have room: "int (length (filter (\<lambda>m. m_role m = ''system'') ?all)) < cm_max_length ?cm"
    by (simp add: mk_manager_def mk_message_def)
  from add_message_prunes [OF live fresh msg all over room]
  obtain cm' conv' where
    a: "add_message 1 ?cm ''c1'' ''user'' ''c'' None None = (Some (mk_message ''user'' ''c'' 1), cm')"
    and b: "dict_get (cm_conversations cm') ''c1'' = Some conv'"
    and c: "c_messages conv' =
              filter (\<lambda>m. m_role m = ''system'') ?all
              @ drop (length (filter (\<lambda>m. m_role m \<noteq> ''system'') ?all)
                        - nat (cm_max_length ?cm
                                 - int (length (filter (\<lambda>m. m_role m = ''system'') ?all))))
                  (filter (\<lambda>m. m_role m \<noteq> ''system'') ?all)"
    by blast
  from c have "c_messages conv' = [mk_message ''system'' ''p'' 0, mk_message ''user'' ''b'' 0,
                                   mk_message ''user'' ''c'' 1]"
    by (simp add: mk_manager_def mk_message_def)
  with a b show ?thesis by blast
qed

text \<open>
  Two appends past the cap. With cap 2, a system message appended after two user
  messages is moved in front of the user message that is kept. With cap 1 and the
  system prompt present, the slice \<open>other_msgs[-0:]\<close> keeps every other message, so
  two messages remain.
\<close>

theorem add_message_prune_counterexample:
  "fst (get_messages 1
          (snd (add_message 1
                  (mk_manager 2 [mk_message ''user'' ''a'' 0, mk_message ''user'' ''b'' 0])
                  ''c1'' ''system'' ''s'' None None))
          ''c1'' True)
     = [mk_message ''system'' ''s'' 1, mk_message ''user'' ''b'' 0]
   \<and> fst (get_messages 1
            (snd (add_message 1 (mk_manager 1 [mk_message ''system'' ''p'' 0])
                    ''c1'' ''user'' ''u'' None None))
            ''c1'' True)
     = [mk_message ''system'' ''p'' 0, mk_message ''user'' ''u'' 1]"
  by (simp add: get_messages_def add_message_def get_conversation_def dict_get_def
        mk_manager_def mk_message_def prune_def slice_from_def Let_def)

section \<open>Router: outcomes, elapsed time and audit\<close>

lemma audit_log_enabled:
  assumes "al_enabled a"
  shows "al_buffer (audit_log io uid now a tool call result)
           = al_buffer a @ [create_entry uid now tool call result]
         \<or> (al_buffer (audit_log io uid now a tool call result) = []
            \<and> al_file (audit_log io uid now a tool call result)
                = al_file a @ al_buffer a @ [create_entry uid now tool call result])"
  using assms by (cases io) (simp_all add: audit_log_def flush_buffer_def Let_def)

lemma audit_log_write_ok:
  assumes "al_enabled a"
  shows "al_file (audit_log WriteOk uid now a tool call result)
           @ al_buffer (audit_log WriteOk uid now a tool call result)
         = al_file a @ al_buffer a @ [create_entry uid now tool call result]"
  using assms by (simp add: audit_log_def flush_buffer_def Let_def)

lemma audit_log_disabled:
  "\<not> al_enabled a \<Longrightarrow> audit_log io uid now a tool call result = a"
  by (simp add: audit_log_def)

lemma create_entry_result:
  "ae_status (create_entry uid now tool call result) = tr_status result"
  "ae_execution_time_ms (create_entry uid now tool call result) = tr_execution_time_ms result"
  "ae_error (create_entry uid now tool call result) = tr_error result"
  by (simp_all add: create_entry_def)

lemma execute_not_found:
  assumes "get (rt_registry rt) (tc_tool_name call) = None"
  shows "execute env rt call =
           (Inr (error_result (tc_tool_name call) NOT_FOUND
                   (''Tool '' @ quote @ tc_tool_name call @ quote @ '' not found'')
                   ''TOOL_NOT_FOUND''),
            rt)"
  using assms by (simp add: execute_def Let_def)

lemma execute_validator_raises:
  assumes "get (rt_registry rt) (tc_tool_name call) = Some tool"
    and "validate_input (env_iter_errors env) (rt_registry rt) (tc_tool_name call)
           (tc_parameters call) = Inl e"
  shows "execute env rt call = (Inl e, rt)"
  using assms by (simp add: execute_def Let_def)

lemma execute_invalid:
  assumes "get (rt_registry rt) (tc_tool_name call) = Some tool"
    and "validate_input (env_iter_errors env) (rt_registry rt) (tc_tool_name call)
           (tc_parameters call) = Inr (is_valid, errors)"
    and "\<not> is_valid"
  shows "execute env rt call =
           (Inr (error_result (tc_tool_name call) VALIDATION_ERROR
                   (''Validation failed: '' @ join ''; '' errors) ''VALIDATION_ERROR''),
            audited env rt tool call
              (error_result (tc_tool_name call) VALIDATION_ERROR
                 (''Validation failed: '' @ join ''; '' errors) ''VALIDATION_ERROR''))"
  using assms by (simp add: execute_def Let_def)

lemma execute_unauthorized:
  assumes "get (rt_registry rt) (tc_tool_name call) = Some tool"
    and "validate_input (env_iter_errors env) (rt_registry rt) (tc_tool_name call)
           (tc_parameters call) = Inr (is_valid, errors)"
    and "is_valid"
    and "\<not> fst (authorize_request tool (ec_user (tc_context call)) (tc_context call))"
  shows "execute env rt call =
           (Inr (error_result (tc_tool_name call) UNAUTHORIZED
                   (case snd (authorize_request tool (ec_user (tc_context call))
                                (tc_context call)) of
                      None \<Rightarrow> ''Unauthorized''
                    | Some e \<Rightarrow> if e \<noteq> [] then e else ''Unauthorized'')
                   ''UNAUTHORIZED''),
            audited env rt tool call
              (error_result (tc_tool_name call) UNAUTHORIZED
                 (case snd (authorize_request tool (ec_user (tc_context call))
                              (tc_context call)) of
                    None \<Rightarrow> ''Unauthorized''
                  | Some e \<Rightarrow> if e \<noteq> [] then e else ''Unauthorized'')
                 ''UNAUTHORIZED''))"
  using assms by (simp add: execute_def Let_def case_prod_beta)

lemma execute_no_adapter:
  assumes "get (rt_registry rt) (tc_tool_name call) = Some tool"
    and "validate_input (env_iter_errors env) (rt_registry rt) (tc_tool_name call)
           (tc_parameters call) = Inr (is_valid, errors)"
    and "is_valid"
    and "fst (authorize_request tool (ec_user (tc_context call)) (tc_context call))"
    and "dict_get (rt_adapters rt) (td_domain tool) = None"
  shows "execute env rt call =
           (Inr (error_result (tc_tool_name call) ERROR
                   (''No adapter registered for domain '' @ quote @ td_domain tool @ quote)
                   ''NO_ADAPTER''),
            audited env rt tool call
              (error_result (tc_tool_name call) ERROR
                 (''No adapter registered for domain '' @ quote @ td_domain tool @ quote)
                 ''NO_ADAPTER''))"
  using assms by (simp add: execute_def Let_def case_prod_beta)

lemma execute_dispatched:
  assumes "get (rt_registry rt) (tc_tool_name call) = Some tool"
    and "validate_input (env_iter_errors env) (rt_registry rt) (tc_tool_name call)
           (tc_parameters call) = Inr (is_valid, errors)"
    and "is_valid"
    and "fst (authorize_request tool (ec_user (tc_context call)) (tc_context call))"
    and "dict_get (rt_adapters rt) (td_domain tool) = Some adapter"
  shows "execute env rt call =
           (Inr ((case execute_with_adapter adapter tool (tc_parameters call)
                         (tc_context call) of
                    Inr r \<Rightarrow> r
                  | Inl e \<Rightarrow> error_result (tc_tool_name call) ERROR e ''EXECUTION_ERROR'')
                   \<lparr>tr_execution_time_ms := (env_time_end env - env_time_start env) * 1000\<rparr>),
            audited env rt tool call
              ((case execute_with_adapter adapter tool (tc_parameters call) (tc_context call) of
                  Inr r \<Rightarrow> r
                | Inl e \<Rightarrow> error_result (tc_tool_name call) ERROR e ''EXECUTION_ERROR'')
                 \<lparr>tr_execution_time_ms := (env_time_end env - env_time_start env) * 1000\<rparr>))"
  using assms by (simp add: execute_def Let_def case_prod_beta)

lemma audited_once:
  "rt_registry (audited env rt tool call result) = rt_registry rt
   \<and> rt_adapters (audited env rt tool call result) = rt_adapters rt
   \<and> rt_audit_logger (audited env rt tool call result)
       = audit_log (env_io env) (env_uuid env) (env_utcnow env) (rt_audit_logger rt)
           tool call result
   \<and> (al_enabled (rt_audit_logger rt) \<longrightarrow>
        (al_buffer (rt_audit_logger (audited env rt tool call result))
           = al_buffer (rt_audit_logger rt)
             @ [create_entry (env_uuid env) (env_utcnow env) tool call result]
         \<or> (al_buffer (rt_audit_logger (audited env rt tool call result)) = []
            \<and> al_file (rt_audit_logger (audited env rt tool call result))
                = al_file (rt_audit_logger rt) @ al_buffer (rt_audit_logger rt)
                  @ [create_entry (env_uuid env) (env_utcnow env) tool call result]))
        \<and> (env_io env = WriteOk \<longrightarrow>
              al_file (rt_audit_logger (audited env rt tool call result))
                @ al_buffer (rt_audit_logger (audited env rt tool call result))
              = al_file (rt_audit_logger rt) @ al_buffer (rt_audit_logger rt)
                @ [create_entry (env_uuid env) (env_utcnow env) tool call result]))
   \<and> (\<not> al_enabled (rt_audit_logger rt) \<longrightarrow>
        rt_audit_logger (audited env rt tool call result) = rt_audit_logger rt)"
  using audit_log_enabled [of "rt_audit_logger rt" "env_io env" "env_uuid env" "env_utcnow env"
          tool call result]
    audit_log_write_ok [of "rt_audit_logger rt" "env_uuid env" "env_utcnow env" tool call result]
    audit_log_disabled [of "rt_audit_logger rt" "env_io env" "env_uuid env" "env_utcnow env"
          tool call result]
  by (auto simp: audited_def)

lemma execute_audited_intro:
  assumes exec: "execute env rt call = (Inr r, audited env rt tool call r)"
    and p: "P r"
  shows "\<exists>result rt'.
     execute env rt call = (Inr result, rt')
     \<and> rt_registry rt' = rt_registry rt \<and> rt_adapters rt' = rt_adapters rt
     \<and> rt_audit_logger rt'
         = audit_log (env_io env) (env_uuid env) (env_utcnow env) (rt_audit_logger rt)
             tool call result
     \<and> (al_enabled (rt_audit_logger rt) \<longrightarrow>
          (al_buffer (rt_audit_logger rt')
             = al_buffer (rt_audit_logger rt)
               @ [create_entry (env_uuid env) (env_utcnow env) tool call result]
           \<or> (al_buffer (rt_audit_logger rt') = []
              \<and> al_file (rt_audit_logger rt')
                  = al_file (rt_audit_logger rt) @ al_buffer (rt_audit_logger rt)
                    @ [create_entry (env_uuid env) (env_utcnow env) tool call result]))
          \<and> (env_io env = WriteOk \<longrightarrow>
                al_file (rt_audit_logger rt') @ al_buffer (rt_audit_logger rt')
                = al_file (rt_audit_logger rt) @ al_buffer (rt_audit_logger rt)
                  @ [create_entry (env_uuid env) (env_utcnow env) tool call result]))
     \<and> (\<not> al_enabled (rt_audit_logger rt) \<longrightarrow> rt_audit_logger rt' = rt_audit_logger rt)
     \<and> ae_status (create_entry (env_uuid env) (env_utcnow env) tool call result)
         = tr_status result
     \<and> ae_execution_time_ms (create_entry (env_uuid env) (env_utcnow env) tool call result)
         = tr_execution_time_ms result
     \<and> P result"
  using exec p audited_once [of env rt tool call r]
    create_entry_result(1,2) [of "env_uuid env" "env_utcnow env" tool call r]
  by blast

lemma authorize_request_denied_reason:
  assumes "\<not> fst (authorize_request tool user ctx)"
  shows "Some (case snd (authorize_request tool user ctx) of
                 None \<Rightarrow> ''Unauthorized''
               | Some e \<Rightarrow> if e \<noteq> [] then e else ''Unauthorized'')
           = snd (authorize_request tool user ctx)"
  using assms by (auto simp: authorize_request_def Let_def split: if_splits)

text \<open>
  C2, as the code has it. For a registered tool whose schema validation returns, every
  outcome of the pipeline is handed to the audit logger exactly once, with the returned
  result: the logger after the call is the logger before it with one \<open>log\<close> of that
  result. With logging enabled its entry is appended to the buffer (or, when that append
  fills the buffer and the flush succeeds, written to the file behind all entries that
  were pending), so that with a working log file the recorded entries grow by exactly
  this one; with logging disabled nothing is recorded. The entry carries the status and
  the time of the returned result. The outcomes are: \<open>validation_error\<close> with the joined
  field errors, \<open>unauthorized\<close> with the deny reason, \<open>error\<close>/\<open>NO_ADAPTER\<close>, and,
  when the request reaches the adapter, the adapter's outcome carrying the elapsed time,
  the clock after the adapter call minus the clock at entry, in milliseconds: success
  with the payload for a plain payload, the adapter's own result with only the time
  replaced, and \<open>error\<close>/\<open>EXECUTION_ERROR\<close> with the message for an exception. The
  pipeline itself produces no \<open>timeout\<close>: that status is returned only when the
  adapter's own result has it.
\<close>

theorem execute_audits_once:
  assumes reg: "get (rt_registry rt) (tc_tool_name call) = Some tool"
    and val: "validate_input (env_iter_errors env) (rt_registry rt) (tc_tool_name call)
                (tc_parameters call) = Inr (is_valid, errors)"
  shows "\<exists>result rt'.
     execute env rt call = (Inr result, rt')
     \<and> rt_registry rt' = rt_registry rt \<and> rt_adapters rt' = rt_adapters rt
     \<and> rt_audit_logger rt'
         = audit_log (env_io env) (env_uuid env) (env_utcnow env) (rt_audit_logger rt)
             tool call result
     \<and> (al_enabled (rt_audit_logger rt) \<longrightarrow>
          (al_buffer (rt_audit_logger rt')
             = al_buffer (rt_audit_logger rt)
               @ [create_entry (env_uuid env) (env_utcnow env) tool call result]
           \<or> (al_buffer (rt_audit_logger rt') = []
              \<and> al_file (rt_audit_logger rt')
                  = al_file (rt_audit_logger rt) @ al_buffer (rt_audit_logger rt)
                    @ [create_entry (env_uuid env) (env_utcnow env) tool call result]))
          \<and> (env_io env = WriteOk \<longrightarrow>
                al_file (rt_audit_logger rt') @ al_buffer (rt_audit_logger rt')
                = al_file (rt_audit_logger rt) @ al_buffer (rt_audit_logger rt)
                  @ [create_entry (env_uuid env) (env_utcnow env) tool call result]))
     \<and> (\<not> al_enabled (rt_audit_logger rt) \<longrightarrow> rt_audit_logger rt' = rt_audit_logger rt)
     \<and> ae_status (create_entry (env_uuid env) (env_utcnow env) tool call result)
         = tr_status result
     \<and> ae_execution_time_ms (create_entry (env_uuid env) (env_utcnow env) tool call result)
         = tr_execution_time_ms result
     \<and> (\<not> is_valid
          \<longrightarrow> tr_status result = VALIDATION_ERROR
              \<and> tr_error result = Some (''Validation failed: '' @ join ''; '' errors))
     \<and> (is_valid
          \<and> \<not> fst (authorize_request tool (ec_user (tc_context call)) (tc_context call))
          \<longrightarrow> tr_status result = UNAUTHORIZED
              \<and> tr_error result
                  = snd (authorize_request tool (ec_user (tc_context call)) (tc_context call)))
     \<and> (is_valid
          \<and> fst (authorize_request tool (ec_user (tc_context call)) (tc_context call))
          \<and> dict_get (rt_adapters rt) (td_domain tool) = None
          \<longrightarrow> tr_status result = ERROR \<and> tr_error_code result = Some ''NO_ADAPTER'')
     \<and> (\<forall>adapter.
           is_valid
           \<and> fst (authorize_request tool (ec_user (tc_context call)) (tc_context call))
           \<and> dict_get (rt_adapters rt) (td_domain tool) = Some adapter
           \<longrightarrow> tr_execution_time_ms result = (env_time_end env - env_time_start env) * 1000
               \<and> (\<forall>e. adapter (action_of (td_name tool)) (tc_parameters call) (tc_context call)
                          = Raises e
                     \<longrightarrow> tr_status result = ERROR \<and> tr_error result = Some e
                         \<and> tr_error_code result = Some ''EXECUTION_ERROR'')
               \<and> (\<forall>v. adapter (action_of (td_name tool)) (tc_parameters call) (tc_context call)
                          = Returns v
                     \<longrightarrow> tr_status result = SUCCESS \<and> tr_data result = v
                         \<and> tr_error result = None)
               \<and> (\<forall>r. adapter (action_of (td_name tool)) (tc_parameters call) (tc_context call)
                          = ReturnsResult r
                     \<longrightarrow> result = r\<lparr>tr_execution_time_ms :=
                                        (env_time_end env - env_time_start env) * 1000\<rparr>))
     \<and> (tr_status result = TIMEOUT
          \<longrightarrow> (\<exists>adapter r. dict_get (rt_adapters rt) (td_domain tool) = Some adapter
                  \<and> adapter (action_of (td_name tool)) (tc_parameters call) (tc_context call)
                      = ReturnsResult r
                  \<and> tr_status r = TIMEOUT))"
proof -
  let ?A = "fst (authorize_request tool (ec_user (tc_context call)) (tc_context call))"
  let ?elapsed = "(env_time_end env - env_time_start env) * 1000"
  let ?P = "\<lambda>result.
       (\<not> is_valid
          \<longrightarrow> tr_status result = VALIDATION_ERROR
              \<and> tr_error result = Some (''Validation failed: '' @ join ''; '' errors))
     \<and> (is_valid \<and> \<not> ?A
          \<longrightarrow> tr_status result = UNAUTHORIZED
              \<and> tr_error result
                  = snd (authorize_request tool (ec_user (tc_context call)) (tc_context call)))
     \<and> (is_valid \<and> ?A \<and> dict_get (rt_adapters rt) (td_domain tool) = None
          \<longrightarrow> tr_status result = ERROR \<and> tr_error_code result = Some ''NO_ADAPTER'')
     \<and> (\<forall>adapter.
           is_valid \<and> ?A \<and> dict_get (rt_adapters rt) (td_domain tool) = Some adapter
           \<longrightarrow> tr_execution_time_ms result = ?elapsed
               \<and> (\<forall>e. adapter (action_of (td_name tool)) (tc_parameters call) (tc_context call)
                          = Raises e
                     \<longrightarrow> tr_status result = ERROR \<and> tr_error result = Some e
                         \<and> tr_error_code result = Some ''EXECUTION_ERROR'')
               \<and> (\<forall>v. adapter (action_of (td_name tool)) (tc_parameters call) (tc_context call)
                          = Returns v
                     \<longrightarrow> tr_status result = SUCCESS \<and> tr_data result = v
                         \<and> tr_error result = None)
               \<and> (\<forall>r. adapter (action_of (td_name tool)) (tc_parameters call) (tc_context call)
                          = ReturnsResult r
                     \<longrightarrow> result = r\<lparr>tr_execution_time_ms := ?elapsed\<rparr>))
     \<and> (tr_status result = TIMEOUT
          \<longrightarrow> (\<exists>adapter r. dict_get (rt_adapters rt) (td_domain tool) = Some adapter
                  \<and> adapter (action_of (td_name tool)) (tc_parameters call) (tc_context call)
                      = ReturnsResult r
                  \<and> tr_status r = TIMEOUT))"
  consider (invalid) "\<not> is_valid" | (denied) "is_valid" "\<not> ?A"
    | (no_adapter) "is_valid" "?A" "dict_get (rt_adapters rt) (td_domain tool) = None"
    | (dispatched) adapter where "is_valid" "?A"
        "dict_get (rt_adapters rt) (td_domain tool) = Some adapter"
    by (cases "dict_get (rt_adapters rt) (td_domain tool)") auto
  then show ?thesis
  proof cases
    case invalid
    have "?P (error_result (tc_tool_name call) VALIDATION_ERROR
                (''Validation failed: '' @ join ''; '' errors) ''VALIDATION_ERROR'')"
      using invalid by (simp add: error_result_def new_result_def)
    from execute_audited_intro [OF execute_invalid [OF reg val invalid], of ?P, OF this]
    show ?thesis .
  next
    case denied
    have "?P (error_result (tc_tool_name call) UNAUTHORIZED
              (case snd (authorize_request tool (ec_user (tc_context call)) (tc_context call)) of
                 None \<Rightarrow> ''Unauthorized''
               | Some e \<Rightarrow> if e \<noteq> [] then e else ''Unauthorized'')
              ''UNAUTHORIZED'')"
      using denied authorize_request_denied_reason [OF denied(2)]
      by (simp add: error_result_def new_result_def)
    from execute_audited_intro [OF execute_unauthorized [OF reg val denied], of ?P, OF this]
    show ?thesis .
  next
    case no_adapter
    have "?P (error_result (tc_tool_name call) ERROR
              (''No adapter registered for domain '' @ quote @ td_domain tool @ quote)
              ''NO_ADAPTER'')"
      using no_adapter by (simp add: error_result_def new_result_def)
    from execute_audited_intro [OF execute_no_adapter [OF reg val no_adapter], of ?P, OF this]
    show ?thesis .
  next
    case dispatched
    have "?P ((case execute_with_adapter adapter tool (tc_parameters call) (tc_context call) of
               Inr r \<Rightarrow> r
             | Inl e \<Rightarrow> error_result (tc_tool_name call) ERROR e ''EXECUTION_ERROR'')
              \<lparr>tr_execution_time_ms := ?elapsed\<rparr>)"
    proof (cases "adapter (action_of (td_name tool)) (tc_parameters call) (tc_context call)")
      case (Returns v)
      with dispatched show ?thesis
        by (simp add: execute_with_adapter_def new_result_def split: json.splits)
    next
      case (ReturnsResult r)
      with dispatched show ?thesis
        by (simp add: execute_with_adapter_def)
    next
      case (Raises e)
      with dispatched show ?thesis
        by (simp add: execute_with_adapter_def error_result_def new_result_def)
    qed
    from execute_audited_intro [OF execute_dispatched [OF reg val dispatched], of ?P, OF this]
    show ?thesis .
  qed
qed

theorem execute_audits_once_witness:
  "\<exists>result rt'.
     execute example_env (mk_router example_registry [(''hr'', hr_adapter)])
       (mk_call ''hr.get_employee'' [(''employee_id'', JStr ''E001'')]
          (mk_user ''alice'' [''user''] [])) = (Inr result, rt')
     \<and> tr_status result = SUCCESS
     \<and> tr_data result = JDict [(''name'', JStr ''Alice''), (''department'', JStr ''Engineering'')]
     \<and> tr_execution_time_ms result = 2000
     \<and> al_buffer (rt_audit_logger rt')
         = [create_entry ''audit-1'' 0 hr_tool
              (mk_call ''hr.get_employee'' [(''employee_id'', JStr ''E001'')]
                 (mk_user ''alice'' [''user''] [])) result]"
proof -
  let ?rt = "mk_router example_registry [(''hr'', hr_adapter)]"
  let ?call = "mk_call ''hr.get_employee'' [(''employee_id'', JStr ''E001'')]
                 (mk_user ''alice'' [''user''] [])"
  let ?r = "(new_result ''hr.get_employee'' SUCCESS)
              \<lparr>tr_data := JDict [(''name'', JStr ''Alice''),
                                 (''department'', JStr ''Engineering'')]\<rparr>"
  have reg: "get (rt_registry ?rt) (tc_tool_name ?call) = Some hr_tool"
    by (simp add: mk_router_def mk_call_def example_registry_def get_def dict_get_def)
  have val: "validate_input (env_iter_errors example_env) (rt_registry ?rt)
               (tc_tool_name ?call) (tc_parameters ?call) = Inr (True, [])"
    using reg by (simp add: validate_input_def hr_tool_def mk_tool_def)
  have a: "fst (authorize_request hr_tool (ec_user (tc_context ?call)) (tc_context ?call))"
    by (simp add: authorize_request_def hr_tool_def mk_tool_def)
  have ad: "dict_get (rt_adapters ?rt) (td_domain hr_tool) = Some hr_adapter"
    by (simp add: mk_router_def dict_get_def hr_tool_def mk_tool_def)
  have out: "hr_adapter (action_of (td_name hr_tool)) (tc_parameters ?call) (tc_context ?call)
               = ReturnsResult ?r"
    by (simp add: hr_adapter_def action_of_def hr_tool_def mk_tool_def)
  from execute_audits_once [OF reg val]
  obtain result rt' where
    e: "execute example_env ?rt ?call = (Inr result, rt')"
    and lg: "rt_audit_logger rt'
         = audit_log (env_io example_env) (env_uuid example_env) (env_utcnow example_env)
             (rt_audit_logger ?rt) hr_tool ?call result"
    and d: "\<forall>adapter.
           True
           \<and> fst (authorize_request hr_tool (ec_user (tc_context ?call)) (tc_context ?call))
           \<and> dict_get (rt_adapters ?rt) (td_domain hr_tool) = Some adapter
           \<longrightarrow> tr_execution_time_ms result
                 = (env_time_end example_env - env_time_start example_env) * 1000
               \<and> (\<forall>e. adapter (action_of (td_name hr_tool)) (tc_parameters ?call)
                            (tc_context ?call) = Raises e
                     \<longrightarrow> tr_status result = ERROR \<and> tr_error result = Some e
                         \<and> tr_error_code result = Some ''EXECUTION_ERROR'')
               \<and> (\<forall>v. adapter (action_of (td_name hr_tool)) (tc_parameters ?call)
                            (tc_context ?call) = Returns v
                     \<longrightarrow> tr_status result = SUCCESS \<and> tr_data result = v
                         \<and> tr_error result = None)
               \<and> (\<forall>r. adapter (action_of (td_name hr_tool)) (tc_parameters ?call)
                            (tc_context ?call) = ReturnsResult r
                     \<longrightarrow> result = r\<lparr>tr_execution_time_ms :=
                                        (env_time_end example_env
                                           - env_time_start example_env) * 1000\<rparr>)"
    by blast
  from d a ad out
  have "result = ?r\<lparr>tr_execution_time_ms :=
                      (env_time_end example_env - env_time_start example_env) * 1000\<rparr>"
    by blast
  then have r: "tr_status result = SUCCESS"
    "tr_data result = JDict [(''name'', JStr ''Alice''), (''department'', JStr ''Engineering'')]"
    "tr_execution_time_ms result = 2000"
    by (simp_all add: example_env_def new_result_def)
  from lg have b: "al_buffer (rt_audit_logger rt')
         = [create_entry ''audit-1'' 0 hr_tool ?call result]"
    by (simp add: audit_log_def mk_router_def example_env_def Let_def)
  from e r b show ?thesis by blast
qed

text \<open>
  Two requests. With audit logging switched off, an authorized call that reaches the
  adapter returns success with the elapsed two seconds, and nothing is recorded. With
  logging on, a denied request is returned with time 0 while the clock shows two
  seconds between entry and return.
\<close>

theorem execute_audit_and_time_counterexample:
  "fst (execute example_env (mk_silent_router example_registry [(''hr'', hr_adapter)])
          (mk_call ''hr.get_employee'' [(''employee_id'', JStr ''E001'')]
             (mk_user ''alice'' [''user''] [])))
     = Inr ((new_result ''hr.get_employee'' SUCCESS)
              \<lparr>tr_data := JDict [(''name'', JStr ''Alice''),
                                 (''department'', JStr ''Engineering'')],
               tr_execution_time_ms := 2000\<rparr>)
   \<and> al_buffer (rt_audit_logger
        (snd (execute example_env (mk_silent_router example_registry [(''hr'', hr_adapter)])
                (mk_call ''hr.get_employee'' [(''employee_id'', JStr ''E001'')]
                   (mk_user ''alice'' [''user''] []))))) = []
   \<and> al_file (rt_audit_logger
        (snd (execute example_env (mk_silent_router example_registry [(''hr'', hr_adapter)])
                (mk_call ''hr.get_employee'' [(''employee_id'', JStr ''E001'')]
                   (mk_user ''alice'' [''user''] []))))) = []
   \<and> fst (execute example_env (mk_router example_registry [])
            (mk_call ''erp.close_books'' [] (mk_user ''carol'' [''user''] [])))
       = Inr (error_result ''erp.close_books'' UNAUTHORIZED ''Admin access required''
                ''UNAUTHORIZED'')
   \<and> tr_execution_time_ms
       (error_result ''erp.close_books'' UNAUTHORIZED ''Admin access required''
          ''UNAUTHORIZED'') = 0
   \<and> (env_time_end example_env - env_time_start example_env) * 1000 = 2000"
  by (simp add: execute_def Let_def mk_router_def mk_silent_router_def mk_call_def
        example_registry_def get_def dict_get_def validate_input_def hr_tool_def books_tool_def
        mk_tool_def authorize_request_def mk_context_def mk_user_def error_result_def
        new_result_def example_env_def hr_adapter_def action_of_def execute_with_adapter_def
        audited_def audit_log_def)

text \<open>
  C1 on the code: for a tool name that the registry does not hold, \<open>execute\<close> returns
  \<open>not_found\<close> and leaves the enabled, empty audit logger as it was, so no audit entry
  is produced.
\<close>

theorem execute_unknown_tool_not_audited:
  "fst (execute example_env (mk_router empty_registry [])
          (mk_call ''unknown.tool'' [] (mk_user ''alice'' [''user''] [])))
     = Inr (error_result ''unknown.tool'' NOT_FOUND
              (''Tool '' @ quote @ ''unknown.tool'' @ quote @ '' not found'')
              ''TOOL_NOT_FOUND'')
   \<and> tr_status (error_result ''unknown.tool'' NOT_FOUND
                   (''Tool '' @ quote @ ''unknown.tool'' @ quote @ '' not found'')
                   ''TOOL_NOT_FOUND'') = NOT_FOUND
   \<and> al_enabled (rt_audit_logger (mk_router empty_registry []))
   \<and> rt_audit_logger (snd (execute example_env (mk_router empty_registry [])
                              (mk_call ''unknown.tool'' [] (mk_user ''alice'' [''user''] []))))
       = rt_audit_logger (mk_router empty_registry [])
   \<and> al_buffer (rt_audit_logger (snd (execute example_env (mk_router empty_registry [])
                              (mk_call ''unknown.tool'' [] (mk_user ''alice'' [''user''] [])))))
       = []
   \<and> al_file (rt_audit_logger (snd (execute example_env (mk_router empty_registry [])
                              (mk_call ''unknown.tool'' [] (mk_user ''alice'' [''user''] [])))))
       = []"
  by (simp add: execute_def Let_def mk_router_def mk_call_def empty_registry_def get_def
        dict_get_def error_result_def new_result_def)

section \<open>Gateway: the bounded tool-calling loop\<close>

lemma conv_get_messages_calls:
  "o_llm_calls (snd (conv_get_messages env cid st)) = o_llm_calls st"
  "o_execute_calls (snd (conv_get_messages env cid st)) = o_execute_calls st"
  by (simp_all add: conv_get_messages_def Let_def split: prod.splits)

lemma conv_add_assistant_message_calls:
  "o_llm_calls (conv_add_assistant_message env cid content tcs st) = o_llm_calls st"
  "o_execute_calls (conv_add_assistant_message env cid content tcs st) = o_execute_calls st"
  by (simp_all add: conv_add_assistant_message_def Let_def split: prod.splits)

lemma conv_add_tool_result_calls:
  "o_llm_calls (conv_add_tool_result env cid tcid content st) = o_llm_calls st"
  "o_execute_calls (conv_add_tool_result env cid tcid content st) = o_execute_calls st"
  by (simp_all add: conv_add_tool_result_def Let_def split: prod.splits)

lemma execute_tool_call_returns:
  assumes ex: "\<And>n name params rid. \<exists>res. g_execute env n name params rid = Inr res"
  shows "\<exists>res st'. execute_tool_call env tc rid st = (Inr res, st')
           \<and> o_llm_calls st' = o_llm_calls st
           \<and> length (o_execute_calls st') \<le> length (o_execute_calls st) + 1"
proof -
  have ce: "\<And>name params. \<exists>res st'. client_execute env name params rid st = (Inr res, st')
              \<and> o_llm_calls st' = o_llm_calls st
              \<and> length (o_execute_calls st') \<le> length (o_execute_calls st) + 1"
  proof -
    fix name params
    from ex obtain res where "g_execute env (length (o_execute_calls st)) name params rid = Inr res"
      by blast
    then show "\<exists>res st'. client_execute env name params rid st = (Inr res, st')
              \<and> o_llm_calls st' = o_llm_calls st
              \<and> length (o_execute_calls st') \<le> length (o_execute_calls st) + 1"
      by (simp add: client_execute_def)
  qed
  show ?thesis
  proof (cases "tcr_arguments tc")
    case (ArgText args_str)
    show ?thesis
    proof (cases "g_json_loads env args_str")
      case None
      with ArgText show ?thesis by (simp add: execute_tool_call_def Let_def)
    next
      case (Some parameters)
      with ArgText ce [of "tcr_name tc" parameters] show ?thesis
        by (simp add: execute_tool_call_def Let_def)
    qed
  next
    case (ArgValue parameters)
    with ce [of "tcr_name tc" parameters] show ?thesis
      by (simp add: execute_tool_call_def Let_def)
  qed
qed

lemma execute_tool_calls_returns:
  assumes ex: "\<And>n name params rid. \<exists>res. g_execute env n name params rid = Inr res"
  shows "\<exists>st'. execute_tool_calls env cid rid tcs st = (None, st')
           \<and> o_llm_calls st' = o_llm_calls st
           \<and> length (o_execute_calls st') \<le> length (o_execute_calls st) + length tcs"
proof (induction tcs arbitrary: st)
  case Nil
  show ?case by simp
next
  case (Cons tc tcs)
  from execute_tool_call_returns [OF ex, of tc rid st]
  obtain res st1 where 1: "execute_tool_call env tc rid st = (Inr res, st1)"
    and 2: "o_llm_calls st1 = o_llm_calls st"
    and 3: "length (o_execute_calls st1) \<le> length (o_execute_calls st) + 1"
    by blast
  let ?st2 = "conv_add_tool_result env cid (tcr_id tc) (format_tool_result env res) st1"
  from Cons.IH [of ?st2]
  obtain st' where 4: "execute_tool_calls env cid rid tcs ?st2 = (None, st')"
    and 5: "o_llm_calls st' = o_llm_calls ?st2"
    and 6: "length (o_execute_calls st') \<le> length (o_execute_calls ?st2) + length tcs"
    by blast
  from 1 4 have "execute_tool_calls env cid rid (tc # tcs) st = (None, st')"
    by simp
  moreover from 2 5 have "o_llm_calls st' = o_llm_calls st"
    by (simp add: conv_add_tool_result_calls)
  moreover from 3 6 have "length (o_execute_calls st') \<le> length (o_execute_calls st) + length (tc # tcs)"
    by (simp add: conv_add_tool_result_calls)
  ultimately show ?case by blast
qed


lemma process_loop_done:
  "\<not> i < g_max_tool_iterations env \<Longrightarrow>
   process_loop env cid tools rid i st = (Inr max_iterations_message, st)"
  by (subst process_loop.simps) simp

lemma process_loop_step:
  assumes "i < g_max_tool_iterations env"
    and "conv_get_messages env cid st = (messages, st1)"
    and "g_complete env (length (o_llm_calls st1)) messages
           (if tools \<noteq> [] then Some tools else None) = Inr r"
    and "lr_tool_calls r = Some (tc # rest)"
    and "execute_tool_calls env cid rid (tc # rest)
           (conv_add_assistant_message env cid
              (case lr_content r of None \<Rightarrow> [] | Some c \<Rightarrow> c) (lr_tool_calls r)
              (st1\<lparr>o_llm_calls := o_llm_calls st1
                       @ [(messages, if tools \<noteq> [] then Some tools else None)]\<rparr>))
         = (None, st4)"
  shows "process_loop env cid tools rid i st = process_loop env cid tools rid (i + 1) st4"
  using assms by (subst process_loop.simps) (simp add: Let_def)

lemma process_loop_exhausts:
  assumes llm: "\<And>n msgs ta. \<exists>r tcs. g_complete env n msgs ta = Inr r
                   \<and> lr_tool_calls r = Some tcs \<and> tcs \<noteq> [] \<and> length tcs \<le> k"
    and ex: "\<And>n name params rid. \<exists>res. g_execute env n name params rid = Inr res"
  shows "i \<le> g_max_tool_iterations env \<Longrightarrow> nat (g_max_tool_iterations env - i) = n \<Longrightarrow>
     \<exists>st'. process_loop env cid tools rid i st = (Inr max_iterations_message, st')
       \<and> length (o_llm_calls st') = length (o_llm_calls st) + n
       \<and> length (o_execute_calls st') \<le> length (o_execute_calls st) + k * n"
proof (induction n arbitrary: i st)
  case 0
  then have "\<not> i < g_max_tool_iterations env" by simp
  then show ?case by (simp add: process_loop_done)
next
  case (Suc n)
  then have lt: "i < g_max_tool_iterations env" by simp
  obtain messages st1 where g: "conv_get_messages env cid st = (messages, st1)"
    by (cases "conv_get_messages env cid st")
  let ?ta = "if tools \<noteq> [] then Some tools else None"
  from llm [of "length (o_llm_calls st1)" messages ?ta]
  obtain r tcs where c: "g_complete env (length (o_llm_calls st1)) messages ?ta = Inr r"
    and t: "lr_tool_calls r = Some tcs" and ne: "tcs \<noteq> []" and le: "length tcs \<le> k"
    by blast
  from ne obtain tc rest where tcs: "tcs = tc # rest" by (cases tcs) auto
  let ?st2 = "st1\<lparr>o_llm_calls := o_llm_calls st1 @ [(messages, ?ta)]\<rparr>"
  let ?st3 = "conv_add_assistant_message env cid
                (case lr_content r of None \<Rightarrow> [] | Some c \<Rightarrow> c) (lr_tool_calls r) ?st2"
  from execute_tool_calls_returns [OF ex, of cid rid "tc # rest" ?st3]
  obtain st4 where e: "execute_tool_calls env cid rid (tc # rest) ?st3 = (None, st4)"
    and l4: "o_llm_calls st4 = o_llm_calls ?st3"
    and x4: "length (o_execute_calls st4) \<le> length (o_execute_calls ?st3) + length (tc # rest)"
    by blast
  have step: "process_loop env cid tools rid i st = process_loop env cid tools rid (i + 1) st4"
    using lt g c t e unfolding tcs by (rule process_loop_step)
  from Suc.prems have "i + 1 \<le> g_max_tool_iterations env"
    and "nat (g_max_tool_iterations env - (i + 1)) = n" by simp_all
  from Suc.IH [OF this, of st4]
  obtain st' where r: "process_loop env cid tools rid (i + 1) st4 = (Inr max_iterations_message, st')"
    and l: "length (o_llm_calls st') = length (o_llm_calls st4) + n"
    and x: "length (o_execute_calls st') \<le> length (o_execute_calls st4) + k * n"
    by blast
  from g have st1: "o_llm_calls st1 = o_llm_calls st" "o_execute_calls st1 = o_execute_calls st"
    using conv_get_messages_calls [of env cid st] by simp_all
  have "length (o_llm_calls st4) = length (o_llm_calls st) + 1"
    by (simp add: l4 conv_add_assistant_message_calls st1)
  with l have L: "length (o_llm_calls st') = length (o_llm_calls st) + Suc n" by simp
  have "length (o_execute_calls st4) \<le> length (o_execute_calls st) + k"
    using x4 le by (simp add: conv_add_assistant_message_calls st1 tcs)
  with x have X: "length (o_execute_calls st') \<le> length (o_execute_calls st) + k * Suc n"
    by simp
  from step r L X show ?case by simp
qed

text \<open>
  C4, as the code has it. If the model returns at least one tool-call request on every
  turn, and every call of the execution client returns a result, then for a step budget
  \<open>maxIterations \<ge> 0\<close> the loop makes exactly \<open>maxIterations\<close> model calls and
  returns the fixed apology message, as a value and not as an exception. The execution
  client is called at most once for each requested tool call: when no turn requests
  more than \<open>k\<close> calls, \<open>execute\<close> is called at most \<open>k * maxIterations\<close> times, so
  at most \<open>maxIterations\<close> times when every turn requests a single call.
\<close>

theorem process_with_tools_exhausts:
  assumes nonneg: "0 \<le> g_max_tool_iterations env"
    and llm: "\<forall>n msgs ta. \<exists>r tcs. g_complete env n msgs ta = Inr r
                   \<and> lr_tool_calls r = Some tcs \<and> tcs \<noteq> [] \<and> length tcs \<le> k"
    and ex: "\<forall>n name params rid. \<exists>res. g_execute env n name params rid = Inr res"
  shows "\<exists>st'. process_with_tools env cid tools rid st = (Inr max_iterations_message, st')
           \<and> int (length (o_llm_calls st'))
               = int (length (o_llm_calls st)) + g_max_tool_iterations env
           \<and> int (length (o_execute_calls st'))
               \<le> int (length (o_execute_calls st)) + int k * g_max_tool_iterations env"
proof -
  from llm have llm': "\<And>n msgs ta. \<exists>r tcs. g_complete env n msgs ta = Inr r
                   \<and> lr_tool_calls r = Some tcs \<and> tcs \<noteq> [] \<and> length tcs \<le> k"
    by blast
  from ex have ex': "\<And>n name params rid. \<exists>res. g_execute env n name params rid = Inr res"
    by blast
  from process_loop_exhausts [OF llm' ex', of 0 "nat (g_max_tool_iterations env)" cid tools rid st]
    nonneg
  obtain st' where r: "process_loop env cid tools rid 0 st = (Inr max_iterations_message, st')"
    and l: "length (o_llm_calls st') = length (o_llm_calls st) + nat (g_max_tool_iterations env)"
    and x: "length (o_execute_calls st')
              \<le> length (o_execute_calls st) + k * nat (g_max_tool_iterations env)"
    by auto
  from l nonneg have "int (length (o_llm_calls st'))
               = int (length (o_llm_calls st)) + g_max_tool_iterations env"
    by simp
  moreover from x nonneg have "int (length (o_execute_calls st'))
               \<le> int (length (o_execute_calls st)) + int k * g_max_tool_iterations env"
  proof -
    from x have "int (length (o_execute_calls st'))
                   \<le> int (length (o_execute_calls st) + k * nat (g_max_tool_iterations env))"
      by (rule iffD2 [OF of_nat_le_iff])
    with nonneg show ?thesis by simp
  qed
  ultimately show ?thesis using r by (simp add: process_with_tools_def)
qed

theorem process_with_tools_exhausts_witness:
  "\<exists>st'. process_with_tools (always_tool_calls_env 3 1) ''c1'' [] ''req1'' start_orchestration
            = (Inr max_iterations_message, st')
         \<and> length (o_llm_calls st') = 3
         \<and> length (o_execute_calls st') \<le> 3"
proof -
  have nonneg: "0 \<le> g_max_tool_iterations (always_tool_calls_env 3 1)"
    by (simp add: always_tool_calls_env_def)
  have llm: "\<forall>n msgs ta. \<exists>r tcs. g_complete (always_tool_calls_env 3 1) n msgs ta = Inr r
                   \<and> lr_tool_calls r = Some tcs \<and> tcs \<noteq> [] \<and> length tcs \<le> 1"
    by (simp add: always_tool_calls_env_def)
  have ex: "\<forall>n name params rid. \<exists>res. g_execute (always_tool_calls_env 3 1) n name params rid
                                          = Inr res"
    by (simp add: always_tool_calls_env_def)
  from process_with_tools_exhausts [OF nonneg llm ex, of "''c1''" "[]" "''req1''" start_orchestration]
  show ?thesis
    by (simp add: always_tool_calls_env_def start_orchestration_def)
qed

text \<open>
  A model that requests two tool calls on every turn, with a step budget of one: the
  loop makes one model call, returns the apology message, and has called the execution
  client twice.
\<close>

theorem process_with_tools_execute_count_counterexample:
  "g_max_tool_iterations (always_tool_calls_env 1 2) = 1
   \<and> fst (process_with_tools (always_tool_calls_env 1 2) ''c1'' [] ''req1'' start_orchestration)
       = Inr max_iterations_message
   \<and> length (o_llm_calls
        (snd (process_with_tools (always_tool_calls_env 1 2) ''c1'' [] ''req1''
                start_orchestration))) = 1
   \<and> length (o_execute_calls
        (snd (process_with_tools (always_tool_calls_env 1 2) ''c1'' [] ''req1''
                start_orchestration))) = 2"
proof -
  have "case process_with_tools (always_tool_calls_env 1 2) ''c1'' [] ''req1''
               start_orchestration of
          (res, st') \<Rightarrow> res = Inr max_iterations_message
                         \<and> length (o_llm_calls st') = 1
                         \<and> length (o_execute_calls st') = 2"
    by code_simp
  then show ?thesis
    by (simp add: case_prod_beta always_tool_calls_env_def)
qed

end
